theory Spec2Isabelle
  imports Complex_Main
begin

section \<open>ChuoCheck: presence checks, countdown clocks and the realtime feed\<close>

text \<open>
  A shallow embedding of the session verification code of the repository:
  \<^item> the tables \<^verbatim>\<open>session_checks\<close> and \<^verbatim>\<open>session_check_responses\<close> of
    \<^verbatim>\<open>supabase/migrations/20260120130000_add_presence_checks.sql\<close>, with the
    constraints and the row level policies an insert has to pass;
  \<^item> the student page \<^verbatim>\<open>LiveClass\<close> (the second unnamed source file): its state, the
    handler of a new check, the countdown effect and \<^verbatim>\<open>confirmPresence\<close>;
  \<^item> the lecturer page \<^verbatim>\<open>ActiveSession\<close> (the second component of
    \<^verbatim>\<open>DigitalIDCard.tsx\<close>): the two insert handlers of the realtime feed, the check
    timer, \<^verbatim>\<open>triggerPresenceCheck\<close>, the session countdown and \<^verbatim>\<open>endSession\<close>.

  Conventions. A UUID is a string. A timestamp is the number of milliseconds that
  \<^verbatim>\<open>Date.getTime()\<close> returns, an \<^typ>\<open>int\<close>. A JavaScript number that holds a
  coordinate, a radius or a distance is a \<^typ>\<open>real\<close> (\<^verbatim>\<open>NaN\<close> and the infinities
  are outside the model); a column that may be \<^verbatim>\<open>null\<close> is an \<^typ>\<open>'a option\<close>.
  A React state update \<^verbatim>\<open>setX(v)\<close> is a record update, an \<^verbatim>\<open>await\<close>ed call to a
  collaborator takes its outcome from an environment record, and what a handler shows
  or calls outside the component is returned as a value.
\<close>

type_synonym uuid = string

subsection \<open>The durable store\<close>

text \<open>
  The columns of \<^verbatim>\<open>attendance_sessions\<close> that the two pages read (both select
  \<^verbatim>\<open>*\<close> with the joined course), and \<^verbatim>\<open>lecturer_id\<close>, which the insert policy
  of \<^verbatim>\<open>session_checks\<close> reads.
\<close>

record session_row =
  sess_id :: uuid
  lecturer_id :: uuid
  session_code :: string
  end_time :: int
  duration_minutes :: int
  is_active :: bool
  location_required :: bool
  classroom_latitude :: "real option"
  classroom_longitude :: "real option"
  geofence_radius_meters :: "real option"
  course_code :: string
  course_name :: string

text \<open>\<^verbatim>\<open>CREATE TABLE public.session_checks\<close> (lines 2 to 9 of the migration).\<close>

record session_check =
  chk_id :: uuid
  session_id :: uuid
  created_at :: int
  expires_at :: int
  chk_is_active :: bool
  created_by :: "uuid option"

text \<open>\<^verbatim>\<open>CREATE TABLE public.session_check_responses\<close> (lines 12 to 20).\<close>

record session_check_response =
  resp_id :: uuid
  check_id :: uuid
  student_id :: uuid
  responded_at :: int

text \<open>
  What \<^verbatim>\<open>logActivity\<close> is called with at lines 484 to 490 of the lecturer page: the
  user, the action, the description (the course of the session, if one is loaded, and
  the number of attendees), the entity and its type. \<^verbatim>\<open>logActivity\<close> is imported from
  \<^verbatim>\<open>@/lib/activityLogger\<close>, which is not among the given sources: the store keeps the
  entries it was called with, in order, and whether a call resolves or rejects is a
  parameter of \<open>endSession\<close>.
\<close>

record activity =
  act_user :: uuid
  act_action :: string
  act_course :: "(string \<times> string) option"
  act_attendees :: nat
  act_entity :: uuid
  act_entity_type :: string

record store =
  attendance_sessions :: "session_row list"
  session_checks :: "session_check list"
  session_check_responses :: "session_check_response list"
  logged_activities :: "activity list"

text \<open>
  What the store answers to a refused write: a row level policy that does not hold, a
  \<^verbatim>\<open>PRIMARY KEY\<close> or \<^verbatim>\<open>UNIQUE\<close> conflict, a \<^verbatim>\<open>REFERENCES\<close> target that does
  not exist, or no answer at all.
\<close>

datatype store_error =
  Policy_violation
| Unique_violation
| Foreign_key_violation
| Transport_failure

text \<open>
  An insert into \<^verbatim>\<open>session_check_responses\<close> by the authenticated user \<open>uid\<close>. The
  client sends \<open>check_id\<close> and \<open>student_id\<close>; the defaults of the table give the row
  its \<open>id\<close> (\<^verbatim>\<open>gen_random_uuid()\<close>, here \<open>new_id\<close>) and \<open>responded_at\<close>
  (\<^verbatim>\<open>now()\<close>, the clock of the database, here \<open>db_now\<close>). The row is refused by
  the policy "Students can respond to checks" (\<^verbatim>\<open>student_id = auth.uid()\<close>), by
  the primary key, by \<^verbatim>\<open>UNIQUE(check_id, student_id)\<close> and by the reference to
  \<^verbatim>\<open>session_checks(id)\<close>. (The reference of \<open>student_id\<close> to \<^verbatim>\<open>auth.users\<close> holds
  for every row the policy lets through: \<open>uid\<close> is a user.) No column, constraint,
  policy or trigger of the migration compares a time with \<open>expires_at\<close>.
\<close>

definition insert_response ::
  "uuid \<Rightarrow> uuid \<Rightarrow> uuid \<Rightarrow> uuid \<Rightarrow> int \<Rightarrow> store \<Rightarrow> store_error + store" where
  "insert_response uid cid sid new_id db_now st =
     (if sid \<noteq> uid then Inl Policy_violation
      else if new_id \<in> set (map resp_id (session_check_responses st)) then Inl Unique_violation
      else if (cid, sid) \<in> set (map (\<lambda>r. (check_id r, student_id r)) (session_check_responses st))
        then Inl Unique_violation
      else if cid \<notin> set (map chk_id (session_checks st)) then Inl Foreign_key_violation
      else Inr (st\<lparr>session_check_responses := session_check_responses st @
             [\<lparr>resp_id = new_id, check_id = cid, student_id = sid, responded_at = db_now\<rparr>]\<rparr>))"

text \<open>
  An insert into \<^verbatim>\<open>session_checks\<close> by \<open>uid\<close>: the policy "Lecturers can create
  checks" asks for a session with this id that \<open>uid\<close> lectures; the primary key and
  the reference to \<^verbatim>\<open>attendance_sessions(id)\<close> follow.
\<close>

definition insert_check ::
  "uuid \<Rightarrow> uuid \<Rightarrow> uuid \<Rightarrow> int \<Rightarrow> bool \<Rightarrow> uuid \<Rightarrow> int \<Rightarrow> store \<Rightarrow> store_error + store" where
  "insert_check uid sess creator expires active new_id db_now st =
     (if \<not> list_ex (\<lambda>s. sess_id s = sess \<and> lecturer_id s = uid) (attendance_sessions st)
        then Inl Policy_violation
      else if new_id \<in> set (map chk_id (session_checks st)) then Inl Unique_violation
      else Inr (st\<lparr>session_checks := session_checks st @
             [\<lparr>chk_id = new_id, session_id = sess, created_at = db_now, expires_at = expires,
               chk_is_active = active, created_by = Some creator\<rparr>]\<rparr>))"

text \<open>
  \<^verbatim>\<open>.from('attendance_sessions').update({ is_active: false }).eq('id', sessionId)\<close>:
  every row with this id that the caller may update gets \<open>is_active = false\<close>; a row
  it may not update is left alone and no error is raised. The update policy of
  \<^verbatim>\<open>attendance_sessions\<close> is declared outside the given sources and is the
  parameter \<open>may_update\<close>.
\<close>

definition update_session_inactive ::
  "(uuid \<Rightarrow> session_row \<Rightarrow> bool) \<Rightarrow> uuid \<Rightarrow> uuid \<Rightarrow> store \<Rightarrow> store" where
  "update_session_inactive may_update uid sess st =
     st\<lparr>attendance_sessions :=
          map (\<lambda>r. if sess_id r = sess \<and> may_update uid r then r\<lparr>is_active := False\<rparr> else r)
            (attendance_sessions st)\<rparr>"

text \<open>The responses the table holds for one check: the tally the lecturer is shown counts them.\<close>

definition responses_for :: "store \<Rightarrow> uuid \<Rightarrow> session_check_response list" where
  "responses_for st cid = filter (\<lambda>r. check_id r = cid) (session_check_responses st)"

definition unique_check_student :: "session_check_response list \<Rightarrow> bool" where
  "unique_check_student rs = distinct (map (\<lambda>r. (check_id r, student_id r)) rs)"

text \<open>
  A run of submissions against the store, one after the other (the unique index
  orders conflicting inserts, whatever their arrival): each is
  \<open>(uid, check, student, new id, time)\<close>, and the run returns the answers with the
  final store. A refused insert leaves the store as it was.
\<close>

fun submit_all ::
  "(uuid \<times> uuid \<times> uuid \<times> uuid \<times> int) list \<Rightarrow> store \<Rightarrow> (store_error + unit) list \<times> store" where
  "submit_all [] st = ([], st)"
| "submit_all ((uid, cid, sid, new_id, t) # xs) st =
     (case insert_response uid cid sid new_id t st of
        Inl e \<Rightarrow> (case submit_all xs st of (rs, st') \<Rightarrow> (Inl e # rs, st'))
      | Inr st1 \<Rightarrow> (case submit_all xs st1 of (rs, st') \<Rightarrow> (Inr () # rs, st')))"

subsection \<open>Seconds remaining\<close>

text \<open>
  \<^verbatim>\<open>Math.max(0, Math.floor((end - now) / 1000))\<close>, the expression of the session
  countdown (\<^verbatim>\<open>DigitalIDCard.tsx\<close>, lines 384 to 386), of \<^verbatim>\<open>handleNewCheck\<close> and of
  the student's check countdown. Both arguments are whole milliseconds, so the floor
  of the quotient is the integer quotient rounded down.
\<close>

definition seconds_remaining :: "int \<Rightarrow> int \<Rightarrow> int" where
  "seconds_remaining end_ms now = max 0 ((end_ms - now) div 1000)"

subsection \<open>The student page: LiveClass\<close>

datatype check_status = Idle | Prompt | Verifying | Verified

record active_check =
  ac_id :: uuid
  ac_expires_at :: int

text \<open>
  The state of the component: \<^verbatim>\<open>user\<close> of \<^verbatim>\<open>useAuth\<close> and the four
  \<^verbatim>\<open>useState\<close> cells, with their initial values.
\<close>

record live_class =
  lc_user :: "uuid option"
  lc_session :: "session_row option"
  activeCheck :: "active_check option"
  lc_timeLeft :: int
  checkStatus :: check_status

definition live_class_init :: "uuid option \<Rightarrow> live_class" where
  "live_class_init u =
     \<lparr>lc_user = u, lc_session = None, activeCheck = None, lc_timeLeft = 0, checkStatus = Idle\<rparr>"

text \<open>
  \<^verbatim>\<open>handleNewCheck\<close> (lines 129 to 142), called with the inserted row when the clock
  of the device reads \<open>now\<close>.
\<close>

definition handleNewCheck :: "int \<Rightarrow> session_check \<Rightarrow> live_class \<Rightarrow> live_class" where
  "handleNewCheck now checkData c =
     c\<lparr>activeCheck := Some \<lparr>ac_id = chk_id checkData, ac_expires_at = expires_at checkData\<rparr>,
       checkStatus := Prompt,
       lc_timeLeft := seconds_remaining (expires_at checkData) now\<rparr>"

text \<open>
  The handler of the subscription to \<^verbatim>\<open>session_checks\<close> (lines 116 to 120): the
  channel is filtered by \<^verbatim>\<open>session_id=eq.${sessionId}\<close>, and only an active check
  is handed on.
\<close>

definition on_check_insert :: "uuid \<Rightarrow> int \<Rightarrow> session_check \<Rightarrow> live_class \<Rightarrow> live_class" where
  "on_check_insert sessionId now row c =
     (if session_id row = sessionId \<and> chk_is_active row then handleNewCheck now row c else c)"

text \<open>
  One firing of the interval of the countdown effect (lines 145 to 167) when the clock
  reads \<open>now\<close>. The effect installs the interval only while the status is
  \<^verbatim>\<open>'prompt'\<close> and a check is held; the second component of the result tells
  whether the toast "Check Missed" was shown.
\<close>

definition check_countdown_tick :: "int \<Rightarrow> live_class \<Rightarrow> live_class \<times> bool" where
  "check_countdown_tick now c =
     (case activeCheck c of
        None \<Rightarrow> (c, False)
      | Some chk \<Rightarrow>
          if checkStatus c \<noteq> Prompt then (c, False)
          else (let remaining = seconds_remaining (ac_expires_at chk) now in
                  if remaining \<le> 0
                  then (c\<lparr>lc_timeLeft := remaining, checkStatus := Idle, activeCheck := None\<rparr>, True)
                  else (c\<lparr>lc_timeLeft := remaining\<rparr>, False)))"

text \<open>
  JavaScript truthiness of a nullable number: \<^verbatim>\<open>null\<close> and \<^verbatim>\<open>0\<close> are falsy.
  \<^verbatim>\<open>x || d\<close> is \<open>x\<close> when \<open>x\<close> is truthy and \<open>d\<close> otherwise.
\<close>

definition truthy :: "real option \<Rightarrow> bool" where
  "truthy x = (case x of None \<Rightarrow> False | Some v \<Rightarrow> v \<noteq> 0)"

definition or_default :: "real option \<Rightarrow> real \<Rightarrow> real" where
  "or_default x d = (case x of None \<Rightarrow> d | Some v \<Rightarrow> if v = 0 then d else v)"

text \<open>
  The radius the re-check compares with: \<^verbatim>\<open>session.geofence_radius_meters || 150\<close>
  (line 186).
\<close>

definition recheck_radius :: "session_row \<Rightarrow> real" where
  "recheck_radius sess = or_default (geofence_radius_meters sess) 150"

text \<open>
  What the inner \<^verbatim>\<open>catch\<close> receives: the error thrown at line 187, whose message
  \<^verbatim>\<open>Location mismatch (${Math.round(distance)}m away)\<close> carries the rounded
  distance, or whatever \<^verbatim>\<open>getCurrentLocation\<close> threw, with its message (the
  toast shows the message, or "Could not verify location." in place of an empty one).
\<close>

datatype location_error = Location_mismatch int | Location_unavailable string

text \<open>
  What \<^verbatim>\<open>confirmPresence\<close> reads from outside the component:
  \<^verbatim>\<open>getCurrentLocation()\<close> resolves to a latitude and a longitude or throws; the
  store gives the new row its id and its time, or cannot be reached.
\<close>

record confirm_env =
  current_location :: "string + real \<times> real"
  response_id :: uuid
  response_time :: int
  store_reachable :: bool

text \<open>
  The location block of \<^verbatim>\<open>confirmPresence\<close> (lines 175 to 198): \<open>None\<close> when the
  block is skipped or the distance passes, the caught error otherwise.
  \<^verbatim>\<open>calculateDistance\<close> is imported from \<^verbatim>\<open>@/lib/locationUtils\<close>, which is not
  among the given sources: it is a parameter.
\<close>

definition location_recheck ::
  "(real \<times> real \<Rightarrow> real \<times> real \<Rightarrow> real) \<Rightarrow> confirm_env \<Rightarrow> session_row \<Rightarrow> location_error option" where
  "location_recheck calculateDistance e sess =
     (if location_required sess \<and> truthy (classroom_latitude sess) \<and> truthy (classroom_longitude sess)
      then (case current_location e of
              Inl msg \<Rightarrow> Some (Location_unavailable msg)
            | Inr userLocation \<Rightarrow>
                (let distance = calculateDistance userLocation
                       (the (classroom_latitude sess), the (classroom_longitude sess))
                 in if distance > recheck_radius sess
                    then Some (Location_mismatch (round distance))
                    else None))
      else None)"

datatype confirm_outcome =
  Not_ready
| Location_check_failed location_error
| Confirm_failed store_error
| Presence_verified

text \<open>
  \<^verbatim>\<open>confirmPresence\<close> (lines 169 to 229) on the component and the store. The status
  is \<^verbatim>\<open>'verifying'\<close> while the calls are awaited and the countdown effect is not
  installed then; the function returns with the status shown here. The function reads
  no clock and compares nothing with \<open>ac_expires_at\<close>.
\<close>

definition confirmPresence ::
  "(real \<times> real \<Rightarrow> real \<times> real \<Rightarrow> real) \<Rightarrow> confirm_env \<Rightarrow> live_class \<times> store
     \<Rightarrow> confirm_outcome \<times> live_class \<times> store" where
  "confirmPresence calculateDistance e cs =
     (case cs of (c, st) \<Rightarrow>
        (case (activeCheck c, lc_user c, lc_session c) of
           (Some chk, Some uid, Some sess) \<Rightarrow>
             (case location_recheck calculateDistance e sess of
                Some err \<Rightarrow> (Location_check_failed err, c\<lparr>checkStatus := Prompt\<rparr>, st)
              | None \<Rightarrow>
                  if \<not> store_reachable e
                  then (Confirm_failed Transport_failure, c\<lparr>checkStatus := Prompt\<rparr>, st)
                  else (case insert_response uid (ac_id chk) uid (response_id e) (response_time e) st of
                          Inl err \<Rightarrow> (Confirm_failed err, c\<lparr>checkStatus := Prompt\<rparr>, st)
                        | Inr st' \<Rightarrow> (Presence_verified, c\<lparr>checkStatus := Verified\<rparr>, st')))
         | _ \<Rightarrow> (Not_ready, c, st)))"

text \<open>The \<^verbatim>\<open>setTimeout\<close> of lines 210 to 213, three seconds after a verification.\<close>

definition verified_timeout :: "live_class \<Rightarrow> live_class" where
  "verified_timeout c = c\<lparr>checkStatus := Idle, activeCheck := None\<rparr>"

subsection \<open>The lecturer page: ActiveSession\<close>

text \<open>
  A row of \<^verbatim>\<open>attendance_records\<close> as the insert event carries it, and an entry of
  the feed (\<^verbatim>\<open>interface AttendanceRecord\<close>) with the profile fetched for it.
\<close>

record attendance_row =
  att_id :: uuid
  att_session_id :: uuid
  att_student_id :: uuid
  att_scanned_at :: int

record attendance_record =
  rec_id :: uuid
  scanned_at :: int
  rec_student_id :: uuid
  full_name :: "string option"
  email :: string

text \<open>
  The state of the component: \<^verbatim>\<open>sessionId\<close> of \<^verbatim>\<open>useParams\<close>, \<^verbatim>\<open>user\<close> of
  \<^verbatim>\<open>useAuth\<close>, the \<^verbatim>\<open>useState\<close> cells of lines 182 to 192 that the handlers
  below read or write, and the route \<^verbatim>\<open>navigate\<close> was called with: once it is set
  the component is unmounted and the cleanups of its effects have cleared the intervals
  and removed the channels.
\<close>

record active_session =
  sessionId :: "uuid option"
  user :: "uuid option"
  session :: "session_row option"
  attendees :: "attendance_record list"
  timeLeft :: int
  activeCheckId :: "uuid option"
  checkTimeLeft :: int
  verifiedCount :: int
  navigated_to :: "string option"

text \<open>
  The handler of the channel \<^verbatim>\<open>attendance-changes\<close> (lines 270 to 293). The channel
  exists once \<^verbatim>\<open>session\<close> is loaded and delivers the inserts with
  \<^verbatim>\<open>session_id=eq.${sessionId}\<close>; \<open>profile\<close> is what the query of lines 272 to 276
  returned.
\<close>

definition on_attendance_insert ::
  "(string option \<times> string) option \<Rightarrow> attendance_row \<Rightarrow> active_session \<Rightarrow> active_session" where
  "on_attendance_insert profile row s =
     (if session s \<noteq> None \<and> navigated_to s = None \<and> sessionId s = Some (att_session_id row)
      then (let p = (case profile of None \<Rightarrow> (None, ''Unknown'') | Some q \<Rightarrow> q);
                newAttendee = \<lparr>rec_id = att_id row, scanned_at = att_scanned_at row,
                                rec_student_id = att_student_id row,
                                full_name = fst p, email = snd p\<rparr>
            in s\<lparr>attendees := newAttendee # attendees s\<rparr>)
      else s)"

text \<open>
  The handler of the channel \<^verbatim>\<open>responses-${activeCheckId}\<close> (lines 307 to 321). The
  effect subscribes only while \<^verbatim>\<open>activeCheckId\<close> is set, with the filter
  \<^verbatim>\<open>check_id=eq.${activeCheckId}\<close>, and its cleanup removes the channel when
  \<^verbatim>\<open>activeCheckId\<close> changes.
\<close>

definition on_response_insert :: "session_check_response \<Rightarrow> active_session \<Rightarrow> active_session" where
  "on_response_insert row s =
     (if navigated_to s = None \<and> activeCheckId s = Some (check_id row)
      then s\<lparr>verifiedCount := verifiedCount s + 1\<rparr>
      else s)"

text \<open>
  One firing of the interval of the presence check effect (lines 324 to 333). The
  callback reads no clock: it works on the previous value of \<^verbatim>\<open>checkTimeLeft\<close>.
\<close>

definition check_timer_tick :: "active_session \<Rightarrow> active_session" where
  "check_timer_tick s =
     (if navigated_to s \<noteq> None \<or> activeCheckId s = None then s
      else if checkTimeLeft s \<le> 1 then s\<lparr>activeCheckId := None, checkTimeLeft := 0\<rparr>
      else s\<lparr>checkTimeLeft := checkTimeLeft s - 1\<rparr>)"

text \<open>
  The interval fires at the wall clock times of the list (a suspended tab delays or
  drops firings); the handler is the same at each.
\<close>

fun check_timer_run :: "int list \<Rightarrow> active_session \<Rightarrow> active_session" where
  "check_timer_run [] s = s"
| "check_timer_run (now # ts) s = check_timer_run ts (check_timer_tick s)"

record trigger_env =
  device_now :: int
  new_check_id :: uuid
  check_created_at :: int
  checks_reachable :: bool

datatype trigger_outcome = Trigger_not_ready | Trigger_failed store_error | Check_started

text \<open>\<^verbatim>\<open>triggerPresenceCheck\<close> (lines 341 to 378).\<close>

definition triggerPresenceCheck ::
  "trigger_env \<Rightarrow> active_session \<times> store \<Rightarrow> trigger_outcome \<times> active_session \<times> store" where
  "triggerPresenceCheck e ss =
     (case ss of (s, st) \<Rightarrow>
        (case (sessionId s, user s) of
           (Some sid, Some uid) \<Rightarrow>
             (let durationSeconds = 60;
                  expiresAt = device_now e + durationSeconds * 1000
              in if \<not> checks_reachable e then (Trigger_failed Transport_failure, s, st)
                 else (case insert_check uid sid uid expiresAt True (new_check_id e)
                              (check_created_at e) st of
                         Inl err \<Rightarrow> (Trigger_failed err, s, st)
                       | Inr st' \<Rightarrow>
                           (Check_started,
                            s\<lparr>activeCheckId := Some (new_check_id e),
                              checkTimeLeft := durationSeconds,
                              verifiedCount := 0\<rparr>,
                            st')))
         | _ \<Rightarrow> (Trigger_not_ready, s, st)))"

text \<open>
  What reaches the lecturer page after a check was triggered: firings of the check
  timer and insert events of either table.
\<close>

datatype feed_event =
  Timer_fired int
| Response_inserted session_check_response
| Attendance_inserted "(string option \<times> string) option" attendance_row

fun feed_step :: "feed_event \<Rightarrow> active_session \<Rightarrow> active_session" where
  "feed_step (Timer_fired now) s = check_timer_tick s"
| "feed_step (Response_inserted row) s = on_response_insert row s"
| "feed_step (Attendance_inserted profile row) s = on_attendance_insert profile row s"

fun responses_of :: "uuid \<Rightarrow> feed_event list \<Rightarrow> session_check_response list" where
  "responses_of c [] = []"
| "responses_of c (Response_inserted row # evs) =
     (if check_id row = c then row # responses_of c evs else responses_of c evs)"
| "responses_of c (ev # evs) = responses_of c evs"

fun timer_firings :: "feed_event list \<Rightarrow> nat" where
  "timer_firings [] = 0"
| "timer_firings (Timer_fired now # evs) = Suc (timer_firings evs)"
| "timer_firings (ev # evs) = timer_firings evs"

text \<open>
  One firing of the interval of the session countdown effect (lines 380 to 396) when
  the clock reads \<open>now\<close>: the new state, and whether \<^verbatim>\<open>endSession()\<close> was called.
\<close>

definition session_countdown_tick :: "int \<Rightarrow> active_session \<Rightarrow> active_session \<times> bool" where
  "session_countdown_tick now s =
     (case session s of
        None \<Rightarrow> (s, False)
      | Some sess \<Rightarrow>
          if navigated_to s \<noteq> None then (s, False)
          else (let remaining = seconds_remaining (end_time sess) now
                in (s\<lparr>timeLeft := remaining\<rparr>, remaining = 0 \<and> is_active sess)))"

datatype end_outcome =
  End_not_ready
| End_failed store_error
| End_log_failed string
| Session_ended nat

text \<open>The three tables of the store that hold sessions, checks and responses.\<close>

definition session_tables ::
  "store \<Rightarrow> session_row list \<times> session_check list \<times> session_check_response list" where
  "session_tables st = (attendance_sessions st, session_checks st, session_check_responses st)"

text \<open>
  The entry \<^verbatim>\<open>endSession\<close> hands to \<^verbatim>\<open>logActivity\<close>, built from the render whose
  closure runs.
\<close>

definition end_activity :: "active_session \<Rightarrow> uuid \<Rightarrow> uuid \<Rightarrow> activity" where
  "end_activity render uid sid =
     \<lparr>act_user = uid, act_action = ''session_ended'',
      act_course = map_option (\<lambda>r. (course_code r, course_name r)) (session render),
      act_attendees = length (attendees render),
      act_entity = sid, act_entity_type = ''session''\<rparr>"

text \<open>
  \<^verbatim>\<open>endSession\<close> (lines 472 to 505). The function is a closure of one render of the
  page: \<open>render\<close> is the state of that render, from which it reads \<^verbatim>\<open>sessionId\<close>,
  \<^verbatim>\<open>user\<close>, \<^verbatim>\<open>session\<close> and \<^verbatim>\<open>attendees\<close>; the button calls the closure of
  the latest render, the session clock the one of the render in which its effect was
  installed. An update answered with an error is thrown to the \<^verbatim>\<open>catch\<close>, which
  shows the error toast. After an answered update \<^verbatim>\<open>logActivity\<close> is called and
  awaited: when it rejects, the \<^verbatim>\<open>catch\<close> shows the error toast and nothing else
  follows; when it resolves, the toast "Session Ended" with the number of attendees
  is shown and the page navigates to \<^verbatim>\<open>/lecturer/classes\<close> (\<open>Session_ended n\<close>).
  The function does not read \<^verbatim>\<open>session.is_active\<close> and does not write
  \<^verbatim>\<open>session\<close>.
\<close>

definition endSession ::
  "(uuid \<Rightarrow> session_row \<Rightarrow> bool) \<Rightarrow> (activity \<Rightarrow> string option) \<Rightarrow> bool \<Rightarrow> active_session
     \<Rightarrow> active_session \<times> store \<Rightarrow> end_outcome \<times> active_session \<times> store" where
  "endSession may_update logActivity reachable render ss =
     (case ss of (s, st) \<Rightarrow>
        (case (sessionId render, user render) of
           (Some sid, Some uid) \<Rightarrow>
             if \<not> reachable then (End_failed Transport_failure, s, st)
             else (let entry = end_activity render uid sid;
                       st1 = (update_session_inactive may_update uid sid st)
                               \<lparr>logged_activities := logged_activities st @ [entry]\<rparr>
                   in case logActivity entry of
                        Some msg \<Rightarrow> (End_log_failed msg, s, st1)
                      | None \<Rightarrow>
                          (Session_ended (length (attendees render)),
                           s\<lparr>navigated_to := Some ''/lecturer/classes''\<rparr>,
                           st1))
         | _ \<Rightarrow> (End_not_ready, s, st)))"

text \<open>
  The session clock over a list of firings, each with the time the clock reads and
  whether the store answers the update that firing may start: the number of calls of
  \<^verbatim>\<open>endSession\<close>, with the final state and store. The effect depends on
  \<^verbatim>\<open>session\<close> only, so the interval keeps calling the \<^verbatim>\<open>endSession\<close> of the
  render in which \<^verbatim>\<open>session\<close> was last set: \<open>render\<close>, whose list of attendees may
  be older than the one of the page.
\<close>

fun session_clock_run ::
  "(uuid \<Rightarrow> session_row \<Rightarrow> bool) \<Rightarrow> (activity \<Rightarrow> string option) \<Rightarrow> active_session
     \<Rightarrow> (int \<times> bool) list \<Rightarrow> active_session \<times> store \<Rightarrow> nat \<times> active_session \<times> store" where
  "session_clock_run may_update logActivity render [] ss = (0, ss)"
| "session_clock_run may_update logActivity render ((now, reachable) # ts) (s, st) =
     (case session_countdown_tick now s of
        (s1, False) \<Rightarrow> session_clock_run may_update logActivity render ts (s1, st)
      | (s1, True) \<Rightarrow>
          (case endSession may_update logActivity reachable render (s1, st) of
             (out, s2, st2) \<Rightarrow>
               (case session_clock_run may_update logActivity render ts (s2, st2) of
                  (n, fin) \<Rightarrow> (Suc n, fin))))"

subsection \<open>A class, a lecturer and a student\<close>

text \<open>
  Concrete rows and component states, used where a statement is evaluated: a session
  with a geofence of 100 metres, its lecturer on the page of the session, a checked-in
  student on the live page, and a presence check that expires at \<open>60000\<close>.
\<close>

definition example_session :: session_row where
  "example_session =
     \<lparr>sess_id = ''s1'', lecturer_id = ''lec'', session_code = ''QR-1'', end_time = 3600000,
      duration_minutes = 60, is_active = True, location_required = True,
      classroom_latitude = Some (-1), classroom_longitude = Some 37,
      geofence_radius_meters = Some 100, course_code = ''CS101'', course_name = ''Logic''\<rparr>"

definition example_check :: session_check where
  "example_check =
     \<lparr>chk_id = ''c1'', session_id = ''s1'', created_at = 0, expires_at = 60000,
      chk_is_active = True, created_by = Some ''lec''\<rparr>"

definition example_store :: store where
  "example_store =
     \<lparr>attendance_sessions = [example_session], session_checks = [example_check],
      session_check_responses = [], logged_activities = []\<rparr>"

definition example_lecturer :: active_session where
  "example_lecturer =
     \<lparr>sessionId = Some ''s1'', user = Some ''lec'', session = Some example_session,
      attendees = [], timeLeft = 0, activeCheckId = None, checkTimeLeft = 0,
      verifiedCount = 0, navigated_to = None\<rparr>"

definition example_student :: live_class where
  "example_student = (live_class_init (Some ''stu''))\<lparr>lc_session := Some example_session\<rparr>"

definition example_trigger :: trigger_env where
  "example_trigger =
     \<lparr>device_now = 100000, new_check_id = ''c2'', check_created_at = 100200,
      checks_reachable = True\<rparr>"

definition example_answered_store :: store where
  "example_answered_store =
     example_store\<lparr>session_check_responses :=
       [\<lparr>resp_id = ''r1'', check_id = ''c1'', student_id = ''stu'', responded_at = 30000\<rparr>]\<rparr>"

definition example_ended_store :: store where
  "example_ended_store =
     example_store\<lparr>attendance_sessions := [example_session\<lparr>is_active := False\<rparr>]\<rparr>"

text \<open>The page of the lecturer opened on the session after it was ended.\<close>

definition example_ended_page :: active_session where
  "example_ended_page = example_lecturer\<lparr>session := Some (example_session\<lparr>is_active := False\<rparr>)\<rparr>"

text \<open>An update policy for the examples: the lecturer of a session may update it.\<close>

definition example_policy :: "uuid \<Rightarrow> session_row \<Rightarrow> bool" where
  "example_policy uid r = (lecturer_id r = uid)"

text \<open>The same session with its classroom on the equator.\<close>

definition equator_session :: session_row where
  "equator_session = example_session\<lparr>classroom_latitude := Some 0\<rparr>"

text \<open>
  The radius as the specification words it, for comparison with \<open>recheck_radius\<close>:
  "the session's configured radius plus a default 50% margin".
\<close>

definition spec_widened_radius :: "real \<Rightarrow> real" where
  "spec_widened_radius r = r + r * 50 / 100"

definition example_env :: confirm_env where
  "example_env =
     \<lparr>current_location = Inr (-1, 37), response_id = ''r1'', response_time = 30000,
      store_reachable = True\<rparr>"

text \<open>
  The student page after the check of the examples arrived at \<open>300\<close> and the countdown
  fired at \<open>59000\<close>, and an answer of the store stamped \<open>61000\<close>, after the expiry.
\<close>

definition example_prompted :: live_class where
  "example_prompted =
     fst (check_countdown_tick 59000 (on_check_insert ''s1'' 300 example_check example_student))"

definition example_late_env :: confirm_env where
  "example_late_env = example_env\<lparr>response_time := 61000\<rparr>"

section \<open>Properties\<close>

subsection \<open>One response per check and student\<close>

lemma insert_response_keeps_unique:
  assumes "unique_check_student (session_check_responses st)"
    and "insert_response uid cid sid new_id t st = Inr st'"
  shows "unique_check_student (session_check_responses st')"
  using assms
  by (auto simp: insert_response_def unique_check_student_def split: if_splits)

lemma submit_all_keeps_unique:
  "unique_check_student (session_check_responses st) \<Longrightarrow>
   unique_check_student (session_check_responses (snd (submit_all xs st)))"
proof (induction xs arbitrary: st)
  case Nil
  then show ?case by simp
next
  case (Cons x xs)
  obtain uid cid sid new_id t where x: "x = (uid, cid, sid, new_id, t)"
    by (cases x) auto
  show ?case
  proof (cases "insert_response uid cid sid new_id t st")
    case (Inl e)
    with Cons.IH [OF Cons.prems] x show ?thesis
      by (cases "submit_all xs st") simp
  next
    case (Inr st1)
    from Cons.prems Inr have "unique_check_student (session_check_responses st1)"
      by (rule insert_response_keeps_unique)
    from Cons.IH [OF this] Inr x show ?thesis
      by (cases "submit_all xs st1") simp
  qed
qed

lemma duplicates_all_conflict:
  assumes "(c, t) \<in> set (map (\<lambda>r. (check_id r, student_id r)) (session_check_responses st))"
  shows "submit_all (map (\<lambda>(j, tj). (t, c, t, j, tj)) dups) st
           = (replicate (length dups) (Inl Unique_violation), st)"
  using assms
  by (induction dups) (auto simp: insert_response_def split: prod.splits)

lemma first_accepted:
  assumes "c \<in> set (map chk_id (session_checks st))"
    and "(c, t) \<notin> set (map (\<lambda>r. (check_id r, student_id r)) (session_check_responses st))"
    and "i \<notin> set (map resp_id (session_check_responses st))"
  shows "insert_response t c t i tm st =
           Inr (st\<lparr>session_check_responses := session_check_responses st @
             [\<lparr>resp_id = i, check_id = c, student_id = t, responded_at = tm\<rparr>]\<rparr>)"
  using assms by (simp add: insert_response_def)

lemma confirmPresence_ready:
  assumes "activeCheck c = Some chk" and "lc_user c = Some uid" and "lc_session c = Some sess"
  shows "confirmPresence cd e (c, st) =
     (case location_recheck cd e sess of
        Some err \<Rightarrow> (Location_check_failed err, c\<lparr>checkStatus := Prompt\<rparr>, st)
      | None \<Rightarrow>
          if \<not> store_reachable e
          then (Confirm_failed Transport_failure, c\<lparr>checkStatus := Prompt\<rparr>, st)
          else (case insert_response uid (ac_id chk) uid (response_id e) (response_time e) st of
                  Inl err \<Rightarrow> (Confirm_failed err, c\<lparr>checkStatus := Prompt\<rparr>, st)
                | Inr st' \<Rightarrow> (Presence_verified, c\<lparr>checkStatus := Verified\<rparr>, st')))"
  using assms by (simp add: confirmPresence_def)

lemma confirmPresence_not_ready:
  assumes "activeCheck c = None \<or> lc_user c = None \<or> lc_session c = None"
  shows "confirmPresence cd e (c, st) = (Not_ready, c, st)"
  using assms by (auto simp: confirmPresence_def split: option.splits)

lemma confirmPresence_accepts:
  assumes "activeCheck c = Some chk" and "lc_user c = Some uid" and "lc_session c = Some sess"
    and "location_recheck cd e sess = None" and "store_reachable e"
    and "ac_id chk \<in> set (map chk_id (session_checks st))"
    and "(ac_id chk, uid) \<notin> set (map (\<lambda>r. (check_id r, student_id r)) (session_check_responses st))"
    and "response_id e \<notin> set (map resp_id (session_check_responses st))"
  shows "confirmPresence cd e (c, st) =
           (Presence_verified, c\<lparr>checkStatus := Verified\<rparr>,
            st\<lparr>session_check_responses := session_check_responses st @
              [\<lparr>resp_id = response_id e, check_id = ac_id chk, student_id = uid,
                responded_at = response_time e\<rparr>]\<rparr>)"
  unfolding confirmPresence_ready [OF assms(1-3)]
  using assms(4,5) first_accepted [OF assms(6-8), of "response_time e"]
  by simp

lemma example_recheck_passes:
  "location_recheck (\<lambda>a b. 80) example_env example_session = None"
  "location_recheck (\<lambda>a b. 80) example_late_env example_session = None"
  by (simp_all add: location_recheck_def example_env_def example_late_env_def
      example_session_def truthy_def recheck_radius_def or_default_def)

lemma example_prompted_eq:
  "example_prompted =
     \<lparr>lc_user = Some ''stu'', lc_session = Some example_session,
      activeCheck = Some \<lparr>ac_id = ''c1'', ac_expires_at = 60000\<rparr>, lc_timeLeft = 1,
      checkStatus = Prompt\<rparr>"
  by (simp add: example_prompted_def check_countdown_tick_def on_check_insert_def
      handleNewCheck_def example_check_def example_student_def live_class_init_def
      seconds_remaining_def)

lemma duplicate_refused:
  assumes "(c, t) \<in> set (map (\<lambda>r. (check_id r, student_id r)) (session_check_responses st))"
  shows "insert_response t c t i tm st = Inl Unique_violation"
  using assms by (simp add: insert_response_def)

text \<open>
  Claim C1. The table never holds two responses of one student to one check: whatever
  submissions reach the store, in whatever order, a table without such a pair stays
  without one (the empty table the migration creates has none). When a student \<open>t\<close>
  sends a response to an existing check \<open>c\<close> that has none of \<open>t\<close> yet, and sends it
  again any number of times, the store accepts the first, answers every other with a
  uniqueness conflict, and holds exactly one row for \<open>(c, t)\<close> afterwards. The refusal
  is the store's: \<open>confirmPresence\<close> does not look for an earlier response, it sends
  the insert, and for a student who has one the answer is the conflict of the store.
\<close>

theorem one_response_per_check_and_student:
  assumes "unique_check_student (session_check_responses st)"
  shows "unique_check_student (session_check_responses (snd (submit_all xs st)))
    \<and> (c \<in> set (map chk_id (session_checks st))
        \<and> (c, t) \<notin> set (map (\<lambda>r. (check_id r, student_id r)) (session_check_responses st))
        \<and> i \<notin> set (map resp_id (session_check_responses st))
       \<longrightarrow> fst (submit_all ((t, c, t, i, tm) # map (\<lambda>(j, tj). (t, c, t, j, tj)) dups) st)
             = Inr () # replicate (length dups) (Inl Unique_violation)
         \<and> filter (\<lambda>r. check_id r = c \<and> student_id r = t)
             (session_check_responses
               (snd (submit_all ((t, c, t, i, tm) # map (\<lambda>(j, tj). (t, c, t, j, tj)) dups) st)))
             = [\<lparr>resp_id = i, check_id = c, student_id = t, responded_at = tm\<rparr>])
    \<and> (activeCheck p = Some chk \<and> lc_user p = Some t \<and> lc_session p = Some sess
        \<and> location_recheck cd e sess = None \<and> store_reachable e
        \<and> (ac_id chk, t) \<in> set (map (\<lambda>r. (check_id r, student_id r)) (session_check_responses st))
       \<longrightarrow> confirmPresence cd e (p, st)
             = (Confirm_failed Unique_violation, p\<lparr>checkStatus := Prompt\<rparr>, st))"
proof (intro conjI impI)
  show "unique_check_student (session_check_responses (snd (submit_all xs st)))"
    using assms by (rule submit_all_keeps_unique)
next
  assume h: "activeCheck p = Some chk \<and> lc_user p = Some t \<and> lc_session p = Some sess
        \<and> location_recheck cd e sess = None \<and> store_reachable e
        \<and> (ac_id chk, t) \<in> set (map (\<lambda>r. (check_id r, student_id r)) (session_check_responses st))"
  then have ready: "activeCheck p = Some chk" "lc_user p = Some t" "lc_session p = Some sess"
    by simp_all
  from h have "insert_response t (ac_id chk) t (response_id e) (response_time e) st
                 = Inl Unique_violation"
    by (simp add: duplicate_refused)
  with h show "confirmPresence cd e (p, st)
             = (Confirm_failed Unique_violation, p\<lparr>checkStatus := Prompt\<rparr>, st)"
    unfolding confirmPresence_ready [OF ready] by simp
next
  assume h: "c \<in> set (map chk_id (session_checks st))
        \<and> (c, t) \<notin> set (map (\<lambda>r. (check_id r, student_id r)) (session_check_responses st))
        \<and> i \<notin> set (map resp_id (session_check_responses st))"
  let ?row = "\<lparr>resp_id = i, check_id = c, student_id = t, responded_at = tm\<rparr>"
  let ?st1 = "st\<lparr>session_check_responses := session_check_responses st @ [?row]\<rparr>"
  from h have ins: "insert_response t c t i tm st = Inr ?st1"
    by (simp add: first_accepted)
  have "(c, t) \<in> set (map (\<lambda>r. (check_id r, student_id r)) (session_check_responses ?st1))"
    by simp
  then have rest: "submit_all (map (\<lambda>(j, tj). (t, c, t, j, tj)) dups) ?st1
           = (replicate (length dups) (Inl Unique_violation), ?st1)"
    by (rule duplicates_all_conflict)
  have none: "filter (\<lambda>r. check_id r = c \<and> student_id r = t) (session_check_responses st) = []"
    using h by (force simp: filter_empty_conv)
  show "fst (submit_all ((t, c, t, i, tm) # map (\<lambda>(j, tj). (t, c, t, j, tj)) dups) st)
             = Inr () # replicate (length dups) (Inl Unique_violation)"
    by (simp add: ins rest)
  show "filter (\<lambda>r. check_id r = c \<and> student_id r = t)
             (session_check_responses
               (snd (submit_all ((t, c, t, i, tm) # map (\<lambda>(j, tj). (t, c, t, j, tj)) dups) st)))
             = [?row]"
    by (simp add: ins rest none)
qed

theorem one_response_per_check_and_student_witness:
  "unique_check_student (session_check_responses example_store)
   \<and> ''c1'' \<in> set (map chk_id (session_checks example_store))
   \<and> fst (submit_all [(''stu'', ''c1'', ''stu'', ''r1'', 30000), (''stu'', ''c1'', ''stu'', ''r2'', 30001),
                       (''stu'', ''c1'', ''stu'', ''r3'', 30002)] example_store)
       = [Inr (), Inl Unique_violation, Inl Unique_violation]
   \<and> unique_check_student (session_check_responses (snd (submit_all
          [(''stu'', ''c1'', ''stu'', ''r1'', 30000), (''stu'', ''c1'', ''stu'', ''r2'', 30001),
           (''stu'', ''c1'', ''stu'', ''r3'', 30002)] example_store)))
   \<and> unique_check_student (session_check_responses example_answered_store)
   \<and> map (\<lambda>r. (check_id r, student_id r)) (session_check_responses example_answered_store)
       = [(''c1'', ''stu'')]
   \<and> confirmPresence (\<lambda>a b. 80) (example_env\<lparr>response_id := ''r2''\<rparr>)
         (example_prompted, example_answered_store)
       = (Confirm_failed Unique_violation, example_prompted\<lparr>checkStatus := Prompt\<rparr>,
          example_answered_store)"
proof -
  have u0: "unique_check_student (session_check_responses example_store)"
    by (simp add: example_store_def unique_check_student_def)
  have u1: "unique_check_student (session_check_responses example_answered_store)"
    and pairs: "map (\<lambda>r. (check_id r, student_id r)) (session_check_responses example_answered_store)
       = [(''c1'', ''stu'')]"
    by (simp_all add: example_answered_store_def example_store_def unique_check_student_def)
  have passes: "location_recheck (\<lambda>a b. 80) (example_env\<lparr>response_id := ''r2''\<rparr>) example_session
                  = None"
    by (simp add: location_recheck_def example_env_def example_session_def truthy_def
        recheck_radius_def or_default_def)
  from one_response_per_check_and_student [OF u0, of
      "[(''stu'', ''c1'', ''stu'', ''r1'', 30000), (''stu'', ''c1'', ''stu'', ''r2'', 30001),
        (''stu'', ''c1'', ''stu'', ''r3'', 30002)]"
      "''c1''" "''stu''" "''r1''" 30000 "[(''r2'', 30001), (''r3'', 30002)]"]
  have run: "''c1'' \<in> set (map chk_id (session_checks example_store))
     \<and> fst (submit_all [(''stu'', ''c1'', ''stu'', ''r1'', 30000), (''stu'', ''c1'', ''stu'', ''r2'', 30001),
                       (''stu'', ''c1'', ''stu'', ''r3'', 30002)] example_store)
       = [Inr (), Inl Unique_violation, Inl Unique_violation]
     \<and> unique_check_student (session_check_responses (snd (submit_all
          [(''stu'', ''c1'', ''stu'', ''r1'', 30000), (''stu'', ''c1'', ''stu'', ''r2'', 30001),
           (''stu'', ''c1'', ''stu'', ''r3'', 30002)] example_store)))"
    by (simp add: example_store_def example_check_def)
  from one_response_per_check_and_student [OF u1, of _ _ "''stu''" _ _ _ example_prompted
      "\<lparr>ac_id = ''c1'', ac_expires_at = 60000\<rparr>" example_session "\<lambda>a b. 80"
      "example_env\<lparr>response_id := ''r2''\<rparr>"] passes pairs
  have again: "confirmPresence (\<lambda>a b. 80) (example_env\<lparr>response_id := ''r2''\<rparr>)
         (example_prompted, example_answered_store)
       = (Confirm_failed Unique_violation, example_prompted\<lparr>checkStatus := Prompt\<rparr>,
          example_answered_store)"
    by (simp add: example_prompted_eq example_env_def)
  from u0 run u1 pairs again show ?thesis by (intro conjI) simp_all
qed

subsection \<open>Countdown values\<close>

text \<open>
  Claim C10. No countdown value of the student's check clock or of the lecturer's
  session clock is negative. The computed value is clamped at zero; it is exactly zero
  whenever the clock reads the expiry time or a later one; \<open>handleNewCheck\<close> and each
  firing of either interval store such a value, and a firing that stores nothing
  leaves the value it found.
\<close>

theorem displayed_countdowns_clamped:
  "0 \<le> seconds_remaining end_ms now
   \<and> (end_ms \<le> now \<longrightarrow> seconds_remaining end_ms now = 0)
   \<and> 0 \<le> lc_timeLeft (handleNewCheck now row c)
   \<and> (expires_at row \<le> now \<longrightarrow> lc_timeLeft (handleNewCheck now row c) = 0)
   \<and> (0 \<le> lc_timeLeft c \<longrightarrow> 0 \<le> lc_timeLeft (fst (check_countdown_tick now c)))
   \<and> (checkStatus c = Prompt \<and> activeCheck c = Some chk \<and> ac_expires_at chk \<le> now
        \<longrightarrow> lc_timeLeft (fst (check_countdown_tick now c)) = 0)
   \<and> (0 \<le> timeLeft s \<longrightarrow> 0 \<le> timeLeft (fst (session_countdown_tick now s)))
   \<and> (session s = Some sess \<and> navigated_to s = None \<and> end_time sess \<le> now
        \<longrightarrow> timeLeft (fst (session_countdown_tick now s)) = 0)"
proof -
  have clamp: "0 \<le> seconds_remaining a b" for a b
    by (simp add: seconds_remaining_def)
  have zero: "seconds_remaining a b = 0" if "a \<le> b" for a b
  proof -
    from that have "(a - b) div 1000 \<le> 0"
      by (simp add: div_nonpos_pos_le0)
    then show ?thesis by (simp add: seconds_remaining_def)
  qed
  show ?thesis
    by (auto simp: clamp zero handleNewCheck_def check_countdown_tick_def
        session_countdown_tick_def Let_def split: option.splits)
qed

theorem displayed_countdowns_clamped_witness:
  "(3600000::int) \<le> 3600500
   \<and> seconds_remaining 3600000 3600500 = 0
   \<and> expires_at example_check \<le> 3600500
   \<and> lc_timeLeft (handleNewCheck 3600500 example_check example_student) = 0
   \<and> checkStatus (handleNewCheck 0 example_check example_student) = Prompt
   \<and> lc_timeLeft (handleNewCheck 0 example_check example_student) = 60
   \<and> lc_timeLeft (fst (check_countdown_tick 3600500
         (handleNewCheck 0 example_check example_student))) = 0
   \<and> 0 \<le> timeLeft example_lecturer
   \<and> session example_lecturer = Some example_session
   \<and> navigated_to example_lecturer = None
   \<and> end_time example_session \<le> 3600500
   \<and> timeLeft (fst (session_countdown_tick 3600500 example_lecturer)) = 0"
  using displayed_countdowns_clamped [of 3600000 3600500 example_check
      "handleNewCheck 0 example_check example_student"
      "\<lparr>ac_id = ''c1'', ac_expires_at = 60000\<rparr>" example_lecturer example_session]
  by (simp add: example_check_def example_student_def example_lecturer_def example_session_def
      handleNewCheck_def live_class_init_def seconds_remaining_def)

subsection \<open>The tally of a presence check\<close>

lemma feed_step_keeps_check:
  "activeCheckId s = Some c \<or> activeCheckId s = None \<Longrightarrow>
   activeCheckId (feed_step ev s) = Some c \<or> activeCheckId (feed_step ev s) = None"
  by (cases ev) (auto simp: check_timer_tick_def on_response_insert_def on_attendance_insert_def Let_def)

lemma feed_step_count_le:
  "activeCheckId s = Some c \<or> activeCheckId s = None \<Longrightarrow>
   verifiedCount (feed_step ev s) \<le> verifiedCount s + int (length (responses_of c [ev]))"
  by (cases ev) (auto simp: check_timer_tick_def on_response_insert_def on_attendance_insert_def Let_def)

lemma responses_of_Cons:
  "length (responses_of c (ev # evs)) = length (responses_of c [ev]) + length (responses_of c evs)"
  by (cases ev) auto

lemma feed_count_bounded:
  "activeCheckId s = Some c \<or> activeCheckId s = None \<Longrightarrow>
   verifiedCount (fold feed_step evs s) \<le> verifiedCount s + int (length (responses_of c evs))"
proof (induction evs arbitrary: s)
  case Nil
  then show ?case by simp
next
  case (Cons ev evs)
  have "verifiedCount (fold feed_step evs (feed_step ev s))
          \<le> verifiedCount (feed_step ev s) + int (length (responses_of c evs))"
    using Cons.prems by (intro Cons.IH feed_step_keeps_check)
  also have "verifiedCount (feed_step ev s) \<le> verifiedCount s + int (length (responses_of c [ev]))"
    using Cons.prems by (rule feed_step_count_le)
  finally show ?case
    by (simp add: responses_of_Cons [of c ev evs])
qed

lemma feed_count_exact:
  "activeCheckId s = Some c \<Longrightarrow> navigated_to s = None \<Longrightarrow>
   int (timer_firings evs) < checkTimeLeft s \<Longrightarrow>
   verifiedCount (fold feed_step evs s) = verifiedCount s + int (length (responses_of c evs))"
proof (induction evs arbitrary: s)
  case Nil
  then show ?case by simp
next
  case (Cons ev evs)
  show ?case
  proof (cases ev)
    case (Timer_fired now)
    let ?s1 = "check_timer_tick s"
    from Cons.prems Timer_fired have lt: "1 < checkTimeLeft s" by simp
    with Cons.prems have s1: "?s1 = s\<lparr>checkTimeLeft := checkTimeLeft s - 1\<rparr>"
      by (simp add: check_timer_tick_def)
    have "verifiedCount (fold feed_step evs ?s1)
            = verifiedCount ?s1 + int (length (responses_of c evs))"
      using Cons.prems Timer_fired by (intro Cons.IH) (simp_all add: s1)
    then show ?thesis using Timer_fired by (simp add: s1)
  next
    case (Response_inserted row)
    let ?s1 = "on_response_insert row s"
    have "verifiedCount (fold feed_step evs ?s1)
            = verifiedCount ?s1 + int (length (responses_of c evs))"
      using Cons.prems Response_inserted
      by (intro Cons.IH) (simp_all add: on_response_insert_def)
    then show ?thesis using Response_inserted Cons.prems
      by (simp add: on_response_insert_def)
  next
    case (Attendance_inserted profile row)
    let ?s1 = "on_attendance_insert profile row s"
    have "verifiedCount (fold feed_step evs ?s1)
            = verifiedCount ?s1 + int (length (responses_of c evs))"
      using Cons.prems Attendance_inserted
      by (intro Cons.IH) (simp_all add: on_attendance_insert_def Let_def)
    then show ?thesis using Attendance_inserted
      by (simp add: on_attendance_insert_def Let_def)
  qed
qed

lemma trigger_started:
  assumes "triggerPresenceCheck e (s, st) = (Check_started, s1, st1)"
  shows "s1 = s\<lparr>activeCheckId := Some (new_check_id e), checkTimeLeft := 60, verifiedCount := 0\<rparr>"
    and "new_check_id e \<notin> set (map chk_id (session_checks st))"
  using assms
  by (auto simp: triggerPresenceCheck_def insert_check_def Let_def
      split: option.splits if_splits sum.splits)

text \<open>
  Claim C9. A presence check that was started has a tally of its own. When
  \<open>triggerPresenceCheck\<close> succeeds, the tally is exactly zero and the page listens for
  the responses to the check just created, whose identity no earlier check has.
  Whatever reaches the page afterwards (firings of the check timer, responses to this
  or to any other check, attendance inserts), the tally never exceeds the number of
  delivered responses to this check, so a response to an earlier check adds nothing;
  and until the sixtieth firing of the timer ends the check on the page, the tally is
  exactly that number.
\<close>

theorem check_tally_counts_only_its_check:
  assumes "triggerPresenceCheck e (s, st) = (Check_started, s1, st1)"
  shows "verifiedCount s1 = 0
    \<and> activeCheckId s1 = Some (new_check_id e)
    \<and> new_check_id e \<notin> set (map chk_id (session_checks st))
    \<and> verifiedCount (fold feed_step evs s1) \<le> int (length (responses_of (new_check_id e) evs))
    \<and> (navigated_to s = None \<and> timer_firings evs < 60
        \<longrightarrow> verifiedCount (fold feed_step evs s1)
              = int (length (responses_of (new_check_id e) evs)))"
proof -
  note s1 = trigger_started(1) [OF assms]
  have a: "activeCheckId s1 = Some (new_check_id e)" and v: "verifiedCount s1 = 0"
    and t: "checkTimeLeft s1 = 60" and n: "navigated_to s1 = navigated_to s"
    by (simp_all add: s1)
  from feed_count_bounded [of s1 "new_check_id e" evs] a v
  have le: "verifiedCount (fold feed_step evs s1) \<le> int (length (responses_of (new_check_id e) evs))"
    by simp
  have eq: "verifiedCount (fold feed_step evs s1) = int (length (responses_of (new_check_id e) evs))"
    if "navigated_to s = None" "timer_firings evs < 60"
    using feed_count_exact [of s1 "new_check_id e" evs] a v t n that by simp
  from a v le eq trigger_started(2) [OF assms] show ?thesis by blast
qed

theorem check_tally_counts_only_its_check_witness:
  "fst (triggerPresenceCheck example_trigger (example_lecturer, example_store)) = Check_started
   \<and> navigated_to example_lecturer = None
   \<and> verifiedCount (fst (snd (triggerPresenceCheck example_trigger
          (example_lecturer\<lparr>verifiedCount := 7\<rparr>, example_store)))) = 0
   \<and> verifiedCount (fold feed_step
         [Response_inserted \<lparr>resp_id = ''r1'', check_id = ''c1'', student_id = ''stu'', responded_at = 100300\<rparr>,
          Response_inserted \<lparr>resp_id = ''r2'', check_id = ''c2'', student_id = ''stu'', responded_at = 100400\<rparr>,
          Timer_fired 101000,
          Response_inserted \<lparr>resp_id = ''r3'', check_id = ''c2'', student_id = ''amy'', responded_at = 101400\<rparr>]
         (fst (snd (triggerPresenceCheck example_trigger (example_lecturer, example_store))))) = 2"
proof -
  let ?evs = "[Response_inserted \<lparr>resp_id = ''r1'', check_id = ''c1'', student_id = ''stu'', responded_at = 100300\<rparr>,
          Response_inserted \<lparr>resp_id = ''r2'', check_id = ''c2'', student_id = ''stu'', responded_at = 100400\<rparr>,
          Timer_fired 101000,
          Response_inserted \<lparr>resp_id = ''r3'', check_id = ''c2'', student_id = ''amy'', responded_at = 101400\<rparr>]"
  let ?r = "triggerPresenceCheck example_trigger (example_lecturer, example_store)"
  let ?r7 = "triggerPresenceCheck example_trigger (example_lecturer\<lparr>verifiedCount := 7\<rparr>, example_store)"
  have started: "?r = (Check_started, fst (snd ?r), snd (snd ?r))"
    by (simp add: triggerPresenceCheck_def insert_check_def example_trigger_def
        example_lecturer_def example_store_def example_session_def example_check_def)
  have started7: "?r7 = (Check_started, fst (snd ?r7), snd (snd ?r7))"
    by (simp add: triggerPresenceCheck_def insert_check_def example_trigger_def
        example_lecturer_def example_store_def example_session_def example_check_def)
  have n: "navigated_to example_lecturer = None"
    by (simp add: example_lecturer_def)
  have id: "new_check_id example_trigger = ''c2''"
    by (simp add: example_trigger_def)
  from check_tally_counts_only_its_check [OF started, of ?evs] n id
  have "verifiedCount (fold feed_step ?evs (fst (snd ?r))) = 2" by simp
  moreover from check_tally_counts_only_its_check [OF started7, of "[]"]
  have "verifiedCount (fst (snd ?r7)) = 0" by simp
  moreover have "fst ?r = Check_started" using started by (metis fst_conv)
  ultimately show ?thesis using n by simp
qed

subsection \<open>Ending a session\<close>

lemma endSession_not_ready:
  assumes "sessionId r = None \<or> user r = None"
  shows "endSession mu lg reachable r (s, st) = (End_not_ready, s, st)"
  using assms by (auto simp: endSession_def split: option.splits)

lemma endSession_ready:
  assumes "sessionId r = Some sid" and "user r = Some uid"
  shows "endSession mu lg reachable r (s, st) =
     (if \<not> reachable then (End_failed Transport_failure, s, st)
      else case lg (end_activity r uid sid) of
             Some msg \<Rightarrow>
               (End_log_failed msg, s,
                (update_session_inactive mu uid sid st)
                  \<lparr>logged_activities := logged_activities st @ [end_activity r uid sid]\<rparr>)
           | None \<Rightarrow>
               (Session_ended (length (attendees r)),
                s\<lparr>navigated_to := Some ''/lecturer/classes''\<rparr>,
                (update_session_inactive mu uid sid st)
                  \<lparr>logged_activities := logged_activities st @ [end_activity r uid sid]\<rparr>))"
  using assms by (simp add: endSession_def Let_def)

lemma endSession_tables:
  "session_tables (snd (snd (endSession mu lg reachable r (s, st)))) =
     (case (sessionId r, user r) of
        (Some sid, Some uid) \<Rightarrow>
          if reachable then session_tables (update_session_inactive mu uid sid st)
          else session_tables st
      | _ \<Rightarrow> session_tables st)"
proof (cases "sessionId r = None \<or> user r = None")
  case True
  then show ?thesis
    by (auto simp: endSession_not_ready split: option.splits)
next
  case False
  then obtain sid uid where r: "sessionId r = Some sid" "user r = Some uid" by auto
  show ?thesis
    unfolding endSession_ready [OF r]
    by (simp add: r session_tables_def update_session_inactive_def split: option.splits)
qed

lemma endSession_outcome:
  "fst (endSession mu lg reachable r (s, st)) =
     (case (sessionId r, user r) of
        (Some sid, Some uid) \<Rightarrow>
          if \<not> reachable then End_failed Transport_failure
          else (case lg (end_activity r uid sid) of
                  Some msg \<Rightarrow> End_log_failed msg
                | None \<Rightarrow> Session_ended (length (attendees r)))
      | _ \<Rightarrow> End_not_ready)"
proof (cases "sessionId r = None \<or> user r = None")
  case True
  then show ?thesis
    by (auto simp: endSession_not_ready split: option.splits)
next
  case False
  then obtain sid uid where r: "sessionId r = Some sid" "user r = Some uid" by auto
  show ?thesis
    unfolding endSession_ready [OF r]
    by (simp add: r split: option.splits)
qed

lemma update_session_inactive_twice:
  "update_session_inactive mu uid sid (update_session_inactive mu uid sid st)
     = update_session_inactive mu uid sid st"
  by (simp add: update_session_inactive_def)

lemma update_session_inactive_tables:
  "session_tables (update_session_inactive mu uid sid (st\<lparr>logged_activities := l\<rparr>))
     = session_tables (update_session_inactive mu uid sid st)"
  by (simp add: update_session_inactive_def session_tables_def)

lemma update_session_inactive_ended:
  assumes "\<forall>r \<in> set (attendance_sessions st). sess_id r = sid \<longrightarrow> \<not> is_active r"
  shows "update_session_inactive mu uid sid st = st"
proof -
  have "map (\<lambda>r. if sess_id r = sid \<and> mu uid r then r\<lparr>is_active := False\<rparr> else r)
          (attendance_sessions st) = attendance_sessions st"
    using assms by (intro map_idI) auto
  then show ?thesis by (simp add: update_session_inactive_def)
qed

lemma endSession_ended:
  assumes "\<forall>x \<in> set (attendance_sessions st). sess_id x = sid \<longrightarrow> \<not> is_active x"
    and "sessionId r = Some sid"
  shows "session_tables (snd (snd (endSession mu lg reachable r (s, st)))) = session_tables st"
  using assms
  by (simp add: endSession_tables update_session_inactive_ended split: option.splits)

lemma session_tables_sessions:
  "session_tables st' = session_tables st \<Longrightarrow> attendance_sessions st' = attendance_sessions st"
  by (simp add: session_tables_def)

lemma session_clock_run_ended:
  assumes "sessionId r = Some sid"
  shows "\<forall>x \<in> set (attendance_sessions st). sess_id x = sid \<longrightarrow> \<not> is_active x \<Longrightarrow>
         session_tables (snd (snd (session_clock_run mu lg r ts (s, st)))) = session_tables st"
proof (induction ts arbitrary: s st)
  case Nil
  then show ?case by simp
next
  case (Cons t ts)
  obtain now reachable where t: "t = (now, reachable)" by (cases t)
  obtain s1 called where tick: "session_countdown_tick now s = (s1, called)"
    by (cases "session_countdown_tick now s")
  show ?case
  proof (cases called)
    case False
    with Cons.IH [OF Cons.prems, of s1] t tick show ?thesis by simp
  next
    case True
    obtain out s2 st2 where e: "endSession mu lg reachable r (s1, st) = (out, s2, st2)"
      by (cases "endSession mu lg reachable r (s1, st)")
    have st2: "session_tables st2 = session_tables st"
      using endSession_ended [OF Cons.prems assms, of mu lg reachable s1] e by simp
    then have "attendance_sessions st2 = attendance_sessions st"
      by (rule session_tables_sessions)
    with Cons.prems
    have "\<forall>x \<in> set (attendance_sessions st2). sess_id x = sid \<longrightarrow> \<not> is_active x"
      by simp
    from Cons.IH [OF this, of s2] st2 t tick True e show ?thesis
      by (cases "session_clock_run mu lg r ts (s2, st2)") simp
  qed
qed

lemma endSession_twice_tables:
  assumes "sessionId r2 = sessionId r" and "user r2 = user r"
  shows "session_tables (snd (snd (endSession mu lg reachable r2
       (snd (endSession mu lg True r (s, st))))))
     = session_tables (snd (snd (endSession mu lg True r (s, st))))"
proof (cases "sessionId r = None \<or> user r = None")
  case True
  with assms have "sessionId r2 = None \<or> user r2 = None" by simp
  with True show ?thesis by (simp add: endSession_not_ready)
next
  case False
  then obtain sid uid where r: "sessionId r = Some sid" "user r = Some uid" by auto
  with assms have r2: "sessionId r2 = Some sid" "user r2 = Some uid" by simp_all
  obtain out1 s1 st1 where e: "endSession mu lg True r (s, st) = (out1, s1, st1)"
    by (cases "endSession mu lg True r (s, st)")
  have t1: "session_tables st1 = session_tables (update_session_inactive mu uid sid st)"
    using endSession_tables [of mu lg True r s st] e r by simp
  have "session_tables (update_session_inactive mu uid sid st1) = session_tables st1"
    using t1 update_session_inactive_twice [of mu uid sid st]
    by (simp add: session_tables_def update_session_inactive_def)
  then have "session_tables (snd (snd (endSession mu lg reachable r2 (s1, st1)))) = session_tables st1"
    by (simp add: endSession_tables r2)
  then show ?thesis by (simp add: e)
qed

text \<open>
  Claim C7, as amended. Ending a session is idempotent on the session and is not a
  no-op. For a session already ended in the store (no row with its id is active), an
  end call for it leaves the session, check and response tables exactly as they were,
  at the button and at every firing of the session clock. A further end call for the
  same session and user leaves those tables as an answered first call left them.
  Whether a call fails does not depend on the page or on the store, so not on the
  session being ended: a call with session id and user ends with "Session Ended"
  whenever the store answers the update and \<open>logActivity\<close> resolves. Every such call
  whose update is answered hands one more \<open>session_ended\<close> entry to \<open>logActivity\<close>,
  and when that resolves the page navigates away.
\<close>

theorem ending_again_keeps_the_session_tables:
  "((\<forall>x \<in> set (attendance_sessions st). sess_id x = sid \<longrightarrow> \<not> is_active x)
      \<and> sessionId r = Some sid
     \<longrightarrow> session_tables (snd (snd (endSession mu lg reachable r (s, st)))) = session_tables st
       \<and> session_tables (snd (snd (session_clock_run mu lg r ts (s, st)))) = session_tables st)
   \<and> (sessionId r2 = sessionId r \<and> user r2 = user r
     \<longrightarrow> session_tables (snd (snd (endSession mu lg reachable r2
             (snd (endSession mu lg True r (s, st))))))
           = session_tables (snd (snd (endSession mu lg True r (s, st)))))
   \<and> fst (endSession mu lg reachable r (s, st)) = fst (endSession mu lg reachable r (s', st'))
   \<and> (sessionId r = Some sid \<and> user r = Some uid \<and> reachable
     \<longrightarrow> logged_activities (snd (snd (endSession mu lg reachable r (s, st))))
           = logged_activities st @ [end_activity r uid sid]
       \<and> (lg (end_activity r uid sid) = None
          \<longrightarrow> fst (endSession mu lg reachable r (s, st)) = Session_ended (length (attendees r))
            \<and> navigated_to (fst (snd (endSession mu lg reachable r (s, st))))
                = Some ''/lecturer/classes''))"
proof (intro conjI impI)
  assume h: "(\<forall>x \<in> set (attendance_sessions st). sess_id x = sid \<longrightarrow> \<not> is_active x)
      \<and> sessionId r = Some sid"
  then have ended: "\<forall>x \<in> set (attendance_sessions st). sess_id x = sid \<longrightarrow> \<not> is_active x"
    and sid: "sessionId r = Some sid" by simp_all
  show "session_tables (snd (snd (endSession mu lg reachable r (s, st)))) = session_tables st"
    using ended sid by (rule endSession_ended)
  show "session_tables (snd (snd (session_clock_run mu lg r ts (s, st)))) = session_tables st"
    using sid ended by (rule session_clock_run_ended)
next
  assume "sessionId r2 = sessionId r \<and> user r2 = user r"
  then have "sessionId r2 = sessionId r" "user r2 = user r" by simp_all
  then show "session_tables (snd (snd (endSession mu lg reachable r2
             (snd (endSession mu lg True r (s, st))))))
           = session_tables (snd (snd (endSession mu lg True r (s, st))))"
    by (rule endSession_twice_tables)
next
  show "fst (endSession mu lg reachable r (s, st)) = fst (endSession mu lg reachable r (s', st'))"
    by (simp only: endSession_outcome)
next
  assume h: "sessionId r = Some sid \<and> user r = Some uid \<and> reachable"
  then have r: "sessionId r = Some sid" "user r = Some uid" and up: reachable by simp_all
  show "logged_activities (snd (snd (endSession mu lg reachable r (s, st))))
           = logged_activities st @ [end_activity r uid sid]"
    unfolding endSession_ready [OF r]
    by (simp add: up update_session_inactive_def split: option.splits)
  {
    assume res: "lg (end_activity r uid sid) = None"
    show "fst (endSession mu lg reachable r (s, st)) = Session_ended (length (attendees r))"
      unfolding endSession_ready [OF r] by (simp add: up res)
    show "navigated_to (fst (snd (endSession mu lg reachable r (s, st))))
                = Some ''/lecturer/classes''"
      unfolding endSession_ready [OF r] by (simp add: up res)
  }
qed

lemma example_end_again:
  "endSession example_policy (\<lambda>a. None) True example_ended_page
       (example_ended_page, example_ended_store)
     = (Session_ended 0, example_ended_page\<lparr>navigated_to := Some ''/lecturer/classes''\<rparr>,
        example_ended_store\<lparr>logged_activities :=
          [\<lparr>act_user = ''lec'', act_action = ''session_ended'',
            act_course = Some (''CS101'', ''Logic''), act_attendees = 0,
            act_entity = ''s1'', act_entity_type = ''session''\<rparr>]\<rparr>)"
proof -
  have r: "sessionId example_ended_page = Some ''s1''" "user example_ended_page = Some ''lec''"
    by (simp_all add: example_ended_page_def example_lecturer_def)
  have ended: "\<forall>x \<in> set (attendance_sessions example_ended_store).
      sess_id x = ''s1'' \<longrightarrow> \<not> is_active x"
    by (simp add: example_ended_store_def)
  have entry: "end_activity example_ended_page ''lec'' ''s1''
      = \<lparr>act_user = ''lec'', act_action = ''session_ended'',
            act_course = Some (''CS101'', ''Logic''), act_attendees = 0,
            act_entity = ''s1'', act_entity_type = ''session''\<rparr>"
    by (simp add: end_activity_def example_ended_page_def example_lecturer_def
        example_session_def)
  have log: "logged_activities example_ended_store = []"
    by (simp add: example_ended_store_def example_store_def)
  have n: "length (attendees example_ended_page) = 0"
    by (simp add: example_ended_page_def example_lecturer_def)
  show ?thesis
    unfolding endSession_ready [OF r]
    by (simp add: update_session_inactive_ended [OF ended] entry log n)
qed

theorem ending_again_keeps_the_session_tables_witness:
  "map is_active (attendance_sessions example_ended_store) = [False]
   \<and> sessionId example_ended_page = Some ''s1''
   \<and> user example_ended_page = Some ''lec''
   \<and> session_tables (snd (snd (endSession example_policy (\<lambda>a. None) True example_ended_page
         (example_ended_page, example_ended_store)))) = session_tables example_ended_store
   \<and> session_tables (snd (snd (session_clock_run example_policy (\<lambda>a. None) example_lecturer
         [(3600000, True), (3601000, True)] (example_lecturer, example_ended_store))))
       = session_tables example_ended_store
   \<and> session_tables (snd (snd (endSession example_policy (\<lambda>a. None) True example_lecturer
         (snd (endSession example_policy (\<lambda>a. None) True example_lecturer
            (example_lecturer, example_store))))))
       = session_tables (snd (snd (endSession example_policy (\<lambda>a. None) True example_lecturer
            (example_lecturer, example_store))))
   \<and> fst (endSession example_policy (\<lambda>a. None) True example_ended_page
         (example_ended_page, example_ended_store)) = Session_ended 0
   \<and> logged_activities (snd (snd (endSession example_policy (\<lambda>a. None) True example_ended_page
         (example_ended_page, example_ended_store))))
       = [end_activity example_ended_page ''lec'' ''s1'']
   \<and> navigated_to (fst (snd (endSession example_policy (\<lambda>a. None) True example_ended_page
         (example_ended_page, example_ended_store)))) = Some ''/lecturer/classes''"
proof -
  have ended: "\<forall>x \<in> set (attendance_sessions example_ended_store).
      sess_id x = ''s1'' \<longrightarrow> \<not> is_active x"
    and rows: "map is_active (attendance_sessions example_ended_store) = [False]"
    and log: "logged_activities example_ended_store = []"
    by (simp_all add: example_ended_store_def example_store_def)
  have page: "sessionId example_ended_page = Some ''s1''" "user example_ended_page = Some ''lec''"
    "attendees example_ended_page = []"
    by (simp_all add: example_ended_page_def example_lecturer_def)
  have lec: "sessionId example_lecturer = Some ''s1''"
    by (simp add: example_lecturer_def)
  note button = ending_again_keeps_the_session_tables [of example_ended_store "''s1''"
      example_ended_page example_policy "\<lambda>a. None" True example_ended_page "[]"
      example_ended_page example_ended_page example_ended_store "''lec''"]
  note clock = ending_again_keeps_the_session_tables [of example_ended_store "''s1''"
      example_lecturer example_policy "\<lambda>a. None" True example_lecturer
      "[(3600000, True), (3601000, True)]"]
  note twice = ending_again_keeps_the_session_tables [of example_store "''s1''"
      example_lecturer example_policy "\<lambda>a. None" True example_lecturer "[]" example_lecturer]
  from button ended page log
  have b: "session_tables (snd (snd (endSession example_policy (\<lambda>a. None) True example_ended_page
         (example_ended_page, example_ended_store)))) = session_tables example_ended_store
     \<and> fst (endSession example_policy (\<lambda>a. None) True example_ended_page
         (example_ended_page, example_ended_store)) = Session_ended 0
     \<and> logged_activities (snd (snd (endSession example_policy (\<lambda>a. None) True example_ended_page
         (example_ended_page, example_ended_store))))
       = [end_activity example_ended_page ''lec'' ''s1'']
     \<and> navigated_to (fst (snd (endSession example_policy (\<lambda>a. None) True example_ended_page
         (example_ended_page, example_ended_store)))) = Some ''/lecturer/classes''"
    by simp
  from clock ended lec
  have c: "session_tables (snd (snd (session_clock_run example_policy (\<lambda>a. None) example_lecturer
         [(3600000, True), (3601000, True)] (example_lecturer, example_ended_store))))
       = session_tables example_ended_store"
    by blast
  from twice
  have t: "session_tables (snd (snd (endSession example_policy (\<lambda>a. None) True example_lecturer
         (snd (endSession example_policy (\<lambda>a. None) True example_lecturer
            (example_lecturer, example_store))))))
       = session_tables (snd (snd (endSession example_policy (\<lambda>a. None) True example_lecturer
            (example_lecturer, example_store))))"
    by blast
  from rows page(1,2) b c t show ?thesis by (intro conjI) simp_all
qed

text \<open>
  The claim as stated fails: the session is already ended in the store and on the
  page, the lecturer presses "End Session Now", and the call is no no-op. Another
  \<open>session_ended\<close> entry is handed to \<open>logActivity\<close>, the toast is shown and the page
  navigates away: the store and the page are not what they were.
\<close>

theorem ending_again_is_not_a_no_op:
  "map is_active (attendance_sessions example_ended_store) = [False]
   \<and> session example_ended_page = Some (example_session\<lparr>is_active := False\<rparr>)
   \<and> fst (endSession example_policy (\<lambda>a. None) True example_ended_page
         (example_ended_page, example_ended_store)) = Session_ended 0
   \<and> navigated_to example_ended_page = None
   \<and> navigated_to (fst (snd (endSession example_policy (\<lambda>a. None) True example_ended_page
         (example_ended_page, example_ended_store)))) = Some ''/lecturer/classes''
   \<and> logged_activities example_ended_store = []
   \<and> logged_activities (snd (snd (endSession example_policy (\<lambda>a. None) True example_ended_page
         (example_ended_page, example_ended_store))))
       = [\<lparr>act_user = ''lec'', act_action = ''session_ended'',
            act_course = Some (''CS101'', ''Logic''), act_attendees = 0,
            act_entity = ''s1'', act_entity_type = ''session''\<rparr>]
   \<and> snd (endSession example_policy (\<lambda>a. None) True example_ended_page
         (example_ended_page, example_ended_store)) \<noteq> (example_ended_page, example_ended_store)"
proof -
  have rows: "map is_active (attendance_sessions example_ended_store) = [False]"
    and log: "logged_activities example_ended_store = []"
    by (simp_all add: example_ended_store_def example_store_def)
  have page: "session example_ended_page = Some (example_session\<lparr>is_active := False\<rparr>)"
    "navigated_to example_ended_page = None"
    by (simp_all add: example_ended_page_def example_lecturer_def)
  have moved: "example_ended_page\<lparr>navigated_to := Some ''/lecturer/classes''\<rparr> \<noteq> example_ended_page"
  proof
    assume "example_ended_page\<lparr>navigated_to := Some ''/lecturer/classes''\<rparr> = example_ended_page"
    then have "navigated_to (example_ended_page\<lparr>navigated_to := Some ''/lecturer/classes''\<rparr>)
                 = navigated_to example_ended_page"
      by simp
    with page(2) show False by simp
  qed
  from rows page log moved show ?thesis
    by (simp add: example_end_again)
qed

subsection \<open>Duplicate delivery\<close>

text \<open>
  Claim C8, as amended. The merge keeps no record of identities. An insert event that
  reaches a handler is merged as it comes: an attendance event is put in front of the
  feed, and a response event adds one to the tally of the check it belongs to. The
  same event delivered twice is therefore in the feed twice, and is counted twice.
\<close>

theorem merge_keeps_no_identity:
  "(session s \<noteq> None \<and> navigated_to s = None \<and> sessionId s = Some (att_session_id row)
     \<longrightarrow> map rec_id (attendees (on_attendance_insert p row s))
           = att_id row # map rec_id (attendees s)
       \<and> map rec_id (attendees (on_attendance_insert p row (on_attendance_insert p row s)))
           = att_id row # att_id row # map rec_id (attendees s))
   \<and> (navigated_to s = None \<and> activeCheckId s = Some (check_id r)
     \<longrightarrow> verifiedCount (on_response_insert r s) = verifiedCount s + 1
       \<and> verifiedCount (on_response_insert r (on_response_insert r s)) = verifiedCount s + 2)"
  by (simp add: on_attendance_insert_def on_response_insert_def Let_def)

theorem merge_keeps_no_identity_witness:
  "session example_lecturer \<noteq> None
   \<and> navigated_to example_lecturer = None
   \<and> sessionId example_lecturer = Some ''s1''
   \<and> map rec_id (attendees (on_attendance_insert None
         \<lparr>att_id = ''a1'', att_session_id = ''s1'', att_student_id = ''stu'', att_scanned_at = 5000\<rparr>
         (on_attendance_insert None
           \<lparr>att_id = ''a1'', att_session_id = ''s1'', att_student_id = ''stu'', att_scanned_at = 5000\<rparr>
           example_lecturer))) = [''a1'', ''a1'']
   \<and> activeCheckId (example_lecturer\<lparr>activeCheckId := Some ''c1''\<rparr>) = Some ''c1''
   \<and> verifiedCount (on_response_insert
         \<lparr>resp_id = ''r1'', check_id = ''c1'', student_id = ''stu'', responded_at = 30000\<rparr>
         (on_response_insert
           \<lparr>resp_id = ''r1'', check_id = ''c1'', student_id = ''stu'', responded_at = 30000\<rparr>
           (example_lecturer\<lparr>activeCheckId := Some ''c1''\<rparr>))) = 2"
  using merge_keeps_no_identity [of example_lecturer
      "\<lparr>att_id = ''a1'', att_session_id = ''s1'', att_student_id = ''stu'', att_scanned_at = 5000\<rparr>"
      None]
    merge_keeps_no_identity [of "example_lecturer\<lparr>activeCheckId := Some ''c1''\<rparr>" _ _
      "\<lparr>resp_id = ''r1'', check_id = ''c1'', student_id = ''stu'', responded_at = 30000\<rparr>"]
  by (simp add: example_lecturer_def)

text \<open>
  The claim as stated fails: one event folded twice gives a feed of two entries and a
  tally of two, where folding it once gives one entry and a tally of one.
\<close>

theorem duplicate_delivery_is_counted_twice:
  "length (attendees (on_attendance_insert None
       \<lparr>att_id = ''a1'', att_session_id = ''s1'', att_student_id = ''stu'', att_scanned_at = 5000\<rparr>
       example_lecturer)) = 1
   \<and> length (attendees (on_attendance_insert None
       \<lparr>att_id = ''a1'', att_session_id = ''s1'', att_student_id = ''stu'', att_scanned_at = 5000\<rparr>
       (on_attendance_insert None
         \<lparr>att_id = ''a1'', att_session_id = ''s1'', att_student_id = ''stu'', att_scanned_at = 5000\<rparr>
         example_lecturer))) = 2
   \<and> on_attendance_insert None
       \<lparr>att_id = ''a1'', att_session_id = ''s1'', att_student_id = ''stu'', att_scanned_at = 5000\<rparr>
       (on_attendance_insert None
         \<lparr>att_id = ''a1'', att_session_id = ''s1'', att_student_id = ''stu'', att_scanned_at = 5000\<rparr>
         example_lecturer)
       \<noteq> on_attendance_insert None
         \<lparr>att_id = ''a1'', att_session_id = ''s1'', att_student_id = ''stu'', att_scanned_at = 5000\<rparr>
         example_lecturer
   \<and> verifiedCount (on_response_insert
       \<lparr>resp_id = ''r1'', check_id = ''c2'', student_id = ''stu'', responded_at = 130000\<rparr>
       (fst (snd (triggerPresenceCheck example_trigger (example_lecturer, example_store))))) = 1
   \<and> verifiedCount (on_response_insert
       \<lparr>resp_id = ''r1'', check_id = ''c2'', student_id = ''stu'', responded_at = 130000\<rparr>
       (on_response_insert
         \<lparr>resp_id = ''r1'', check_id = ''c2'', student_id = ''stu'', responded_at = 130000\<rparr>
         (fst (snd (triggerPresenceCheck example_trigger (example_lecturer, example_store)))))) = 2"
  by (simp add: on_attendance_insert_def on_response_insert_def triggerPresenceCheck_def
      insert_check_def example_lecturer_def example_store_def example_trigger_def
      example_session_def example_check_def)

subsection \<open>Late responses\<close>

lemma confirmPresence_refused_keeps_store:
  assumes "fst (confirmPresence cd e (c, st)) \<noteq> Presence_verified"
  shows "snd (snd (confirmPresence cd e (c, st))) = st"
proof (cases "activeCheck c = None \<or> lc_user c = None \<or> lc_session c = None")
  case True
  then show ?thesis by (simp add: confirmPresence_not_ready)
next
  case False
  then obtain chk uid sess where r: "activeCheck c = Some chk" "lc_user c = Some uid"
      "lc_session c = Some sess"
    by auto
  show ?thesis
    using assms unfolding confirmPresence_ready [OF r]
    by (simp split: option.splits if_splits sum.splits)
qed

lemma tick_drops_check:
  assumes "checkStatus c = Prompt" and "activeCheck c = Some chk"
    and "ac_expires_at chk - now < 1000"
  shows "check_countdown_tick now c
           = (c\<lparr>lc_timeLeft := 0, checkStatus := Idle, activeCheck := None\<rparr>, True)"
proof -
  from assms(3) have "ac_expires_at chk - now \<le> 999" by simp
  then have "(ac_expires_at chk - now) div 1000 \<le> 999 div 1000"
    by (rule zdiv_mono1) simp
  then have "(ac_expires_at chk - now) div 1000 \<le> 0" by simp
  then have "seconds_remaining (ac_expires_at chk) now = 0"
    by (simp add: seconds_remaining_def)
  with assms show ?thesis
    by (simp add: check_countdown_tick_def)
qed

text \<open>
  Claim C3, as amended. A response is turned away by the clock of the student's page
  and by nothing else. Once the countdown of the page fires less than one second
  before the expiry or later, the page drops the check and shows "Check Missed", and
  \<open>confirmPresence\<close> then does nothing: the store is as it was. A refused
  \<open>confirmPresence\<close> leaves the responses of every check as they were. While the
  page holds the check, a \<open>confirmPresence\<close> whose location re-check passes, from a
  student with no response to this check yet, is accepted by the store and adds
  exactly one row, whatever the time the store stamps on it: neither
  \<open>confirmPresence\<close> nor the store compares a time with the expiry.
\<close>

theorem responses_are_gated_by_the_student_clock:
  "(checkStatus c = Prompt \<and> activeCheck c = Some chk \<and> ac_expires_at chk - now < 1000
      \<longrightarrow> snd (check_countdown_tick now c)
        \<and> confirmPresence cd e (fst (check_countdown_tick now c), st)
            = (Not_ready, fst (check_countdown_tick now c), st))
   \<and> (fst (confirmPresence cd e (c, st)) \<noteq> Presence_verified
      \<longrightarrow> responses_for (snd (snd (confirmPresence cd e (c, st)))) k = responses_for st k)
   \<and> (activeCheck c = Some chk \<and> lc_user c = Some uid \<and> lc_session c = Some sess
        \<and> location_recheck cd e sess = None \<and> store_reachable e
        \<and> ac_id chk \<in> set (map chk_id (session_checks st))
        \<and> (ac_id chk, uid) \<notin> set (map (\<lambda>r. (check_id r, student_id r)) (session_check_responses st))
        \<and> response_id e \<notin> set (map resp_id (session_check_responses st))
      \<longrightarrow> fst (confirmPresence cd e (c, st)) = Presence_verified
        \<and> responses_for (snd (snd (confirmPresence cd e (c, st)))) (ac_id chk)
            = responses_for st (ac_id chk) @
                [\<lparr>resp_id = response_id e, check_id = ac_id chk, student_id = uid,
                  responded_at = response_time e\<rparr>])"
proof (intro conjI impI)
  assume h: "checkStatus c = Prompt \<and> activeCheck c = Some chk \<and> ac_expires_at chk - now < 1000"
  then have t: "check_countdown_tick now c
           = (c\<lparr>lc_timeLeft := 0, checkStatus := Idle, activeCheck := None\<rparr>, True)"
    by (simp add: tick_drops_check)
  show "snd (check_countdown_tick now c)" by (simp add: t)
  show "confirmPresence cd e (fst (check_countdown_tick now c), st)
            = (Not_ready, fst (check_countdown_tick now c), st)"
    by (simp add: t confirmPresence_not_ready)
next
  assume "fst (confirmPresence cd e (c, st)) \<noteq> Presence_verified"
  then show "responses_for (snd (snd (confirmPresence cd e (c, st)))) k = responses_for st k"
    by (simp add: confirmPresence_refused_keeps_store)
next
  assume h: "activeCheck c = Some chk \<and> lc_user c = Some uid \<and> lc_session c = Some sess
        \<and> location_recheck cd e sess = None \<and> store_reachable e
        \<and> ac_id chk \<in> set (map chk_id (session_checks st))
        \<and> (ac_id chk, uid) \<notin> set (map (\<lambda>r. (check_id r, student_id r)) (session_check_responses st))
        \<and> response_id e \<notin> set (map resp_id (session_check_responses st))"
  then have r: "confirmPresence cd e (c, st) =
           (Presence_verified, c\<lparr>checkStatus := Verified\<rparr>,
            st\<lparr>session_check_responses := session_check_responses st @
              [\<lparr>resp_id = response_id e, check_id = ac_id chk, student_id = uid,
                responded_at = response_time e\<rparr>]\<rparr>)"
  proof -
    from h have h1: "activeCheck c = Some chk" and h2: "lc_user c = Some uid"
      and h3: "lc_session c = Some sess" and h4: "location_recheck cd e sess = None"
      and h5: "store_reachable e" and h6: "ac_id chk \<in> set (map chk_id (session_checks st))"
      and h7: "(ac_id chk, uid) \<notin> set (map (\<lambda>r. (check_id r, student_id r)) (session_check_responses st))"
      and h8: "response_id e \<notin> set (map resp_id (session_check_responses st))"
      by blast+
    show ?thesis by (rule confirmPresence_accepts [OF h1 h2 h3 h4 h5 h6 h7 h8])
  qed
  show "fst (confirmPresence cd e (c, st)) = Presence_verified" by (simp add: r)
  show "responses_for (snd (snd (confirmPresence cd e (c, st)))) (ac_id chk)
            = responses_for st (ac_id chk) @
                [\<lparr>resp_id = response_id e, check_id = ac_id chk, student_id = uid,
                  responded_at = response_time e\<rparr>]"
    by (simp add: r responses_for_def)
qed

theorem responses_are_gated_by_the_student_clock_witness:
  "checkStatus example_prompted = Prompt
   \<and> activeCheck example_prompted = Some \<lparr>ac_id = ''c1'', ac_expires_at = 60000\<rparr>
   \<and> (60000::int) - 59500 < 1000
   \<and> confirmPresence (\<lambda>a b. 80) example_env
         (fst (check_countdown_tick 59500 example_prompted), example_store)
       = (Not_ready, fst (check_countdown_tick 59500 example_prompted), example_store)
   \<and> fst (confirmPresence (\<lambda>a b. 150) example_env (example_prompted, example_store))
       = Location_check_failed (Location_mismatch 150)
   \<and> responses_for (snd (snd (confirmPresence (\<lambda>a b. 150) example_env
         (example_prompted, example_store)))) ''c1'' = []
   \<and> location_recheck (\<lambda>a b. 80) example_env example_session = None
   \<and> fst (confirmPresence (\<lambda>a b. 80) example_env (example_prompted, example_store))
       = Presence_verified
   \<and> responses_for (snd (snd (confirmPresence (\<lambda>a b. 80) example_env
         (example_prompted, example_store)))) ''c1''
       = [\<lparr>resp_id = ''r1'', check_id = ''c1'', student_id = ''stu'', responded_at = 30000\<rparr>]"
proof -
  let ?chk = "\<lparr>ac_id = ''c1'', ac_expires_at = 60000\<rparr>"
  have page: "checkStatus example_prompted = Prompt" "activeCheck example_prompted = Some ?chk"
    "lc_user example_prompted = Some ''stu''" "lc_session example_prompted = Some example_session"
    by (simp_all add: example_prompted_eq)
  have st: "ac_id ?chk \<in> set (map chk_id (session_checks example_store))"
    "(ac_id ?chk, ''stu'') \<notin> set (map (\<lambda>r. (check_id r, student_id r))
        (session_check_responses example_store))"
    "response_id example_env \<notin> set (map resp_id (session_check_responses example_store))"
    "responses_for example_store ''c1'' = []"
    by (simp_all add: example_store_def example_check_def responses_for_def)
  have env: "store_reachable example_env" "response_id example_env = ''r1''"
    "response_time example_env = 30000"
    by (simp_all add: example_env_def)
  have far: "location_recheck (\<lambda>a b. 150) example_env example_session
               = Some (Location_mismatch 150)"
    by (simp add: location_recheck_def example_env_def example_session_def truthy_def
        recheck_radius_def or_default_def)
  have refused: "fst (confirmPresence (\<lambda>a b. 150) example_env (example_prompted, example_store))
       = Location_check_failed (Location_mismatch 150)"
    unfolding confirmPresence_ready [OF page(2-4)] by (simp add: far)
  note near = responses_are_gated_by_the_student_clock [of example_prompted ?chk 59500
      "\<lambda>a b. 80" example_env example_store "''c1''" "''stu''" example_session]
  note away = responses_are_gated_by_the_student_clock [of example_prompted ?chk 59500
      "\<lambda>a b. 150" example_env example_store "''c1''" "''stu''" example_session]
  from near page
  have missed: "confirmPresence (\<lambda>a b. 80) example_env
         (fst (check_countdown_tick 59500 example_prompted), example_store)
       = (Not_ready, fst (check_countdown_tick 59500 example_prompted), example_store)"
    by simp
  from away refused st(4)
  have unchanged: "responses_for (snd (snd (confirmPresence (\<lambda>a b. 150) example_env
         (example_prompted, example_store)))) ''c1'' = []"
    by simp
  from near page st env example_recheck_passes(1)
  have accepted: "fst (confirmPresence (\<lambda>a b. 80) example_env (example_prompted, example_store))
       = Presence_verified
     \<and> responses_for (snd (snd (confirmPresence (\<lambda>a b. 80) example_env
         (example_prompted, example_store)))) ''c1''
       = [\<lparr>resp_id = ''r1'', check_id = ''c1'', student_id = ''stu'', responded_at = 30000\<rparr>]"
    by simp
  from page(1,2) missed refused unchanged example_recheck_passes(1) accepted
  show ?thesis by (intro conjI) simp_all
qed

text \<open>
  The claim as stated fails: the page still holds the check (its last firing read
  \<open>59000\<close>), the response reaches the store at \<open>61000\<close>, after the expiry at
  \<open>60000\<close>, and it is accepted and counted.
\<close>

theorem late_response_is_accepted:
  "checkStatus example_prompted = Prompt
   \<and> activeCheck example_prompted = Some \<lparr>ac_id = ''c1'', ac_expires_at = 60000\<rparr>
   \<and> expires_at example_check < response_time example_late_env
   \<and> responses_for example_store ''c1'' = []
   \<and> fst (confirmPresence (\<lambda>a b. 80) example_late_env (example_prompted, example_store))
       = Presence_verified
   \<and> responses_for (snd (snd (confirmPresence (\<lambda>a b. 80) example_late_env
         (example_prompted, example_store)))) ''c1''
       = [\<lparr>resp_id = ''r1'', check_id = ''c1'', student_id = ''stu'', responded_at = 61000\<rparr>]"
proof -
  have r: "confirmPresence (\<lambda>a b. 80) example_late_env (example_prompted, example_store)
      = (Presence_verified, example_prompted\<lparr>checkStatus := Verified\<rparr>,
         example_store\<lparr>session_check_responses :=
           [\<lparr>resp_id = ''r1'', check_id = ''c1'', student_id = ''stu'', responded_at = 61000\<rparr>]\<rparr>)"
    using confirmPresence_accepts [of example_prompted "\<lparr>ac_id = ''c1'', ac_expires_at = 60000\<rparr>"
        "''stu''" example_session "\<lambda>a b. 80" example_late_env example_store]
      example_recheck_passes(2)
    by (simp add: example_prompted_eq example_late_env_def example_env_def example_store_def
        example_check_def)
  have out: "fst (confirmPresence (\<lambda>a b. 80) example_late_env (example_prompted, example_store))
       = Presence_verified"
    by (simp add: r)
  have recorded: "responses_for (snd (snd (confirmPresence (\<lambda>a b. 80) example_late_env
         (example_prompted, example_store)))) ''c1''
       = [\<lparr>resp_id = ''r1'', check_id = ''c1'', student_id = ''stu'', responded_at = 61000\<rparr>]"
    by (simp add: r responses_for_def)
  have before: "responses_for example_store ''c1'' = []"
    by (simp add: responses_for_def example_store_def)
  have late: "expires_at example_check < response_time example_late_env"
    by (simp add: example_check_def example_late_env_def example_env_def)
  have held: "checkStatus example_prompted = Prompt"
    "activeCheck example_prompted = Some \<lparr>ac_id = ''c1'', ac_expires_at = 60000\<rparr>"
    by (simp_all add: example_prompted_eq)
  from held late before out recorded show ?thesis by (intro conjI)
qed

subsection \<open>The radius of the location re-check\<close>

lemma location_recheck_located:
  assumes "location_required sess"
    and "classroom_latitude sess = Some lat" and "lat \<noteq> 0"
    and "classroom_longitude sess = Some lon" and "lon \<noteq> 0"
    and "current_location e = Inr loc"
  shows "location_recheck cd e sess =
           (if recheck_radius sess < cd loc (lat, lon)
            then Some (Location_mismatch (round (cd loc (lat, lon)))) else None)"
  using assms by (simp add: location_recheck_def truthy_def Let_def)

lemma recheck_radius_cases:
  "recheck_radius sess =
     (case geofence_radius_meters sess of
        None \<Rightarrow> 150
      | Some r \<Rightarrow> if r = 0 then 150 else r)"
  by (simp add: recheck_radius_def or_default_def)

text \<open>
  Claim C4, on a failing input. The session has a configured radius of 100 metres, so
  the tolerance of the claim, the radius and half as much again, is 150 metres. A
  student 120 metres away is inside it; \<open>confirmPresence\<close> compares the distance with
  100, turns the student away with the distance and records nothing. The "slightly
  larger buffer for re-check" of the comment at line 186 is the fallback of 150
  metres, which only a session without a radius gets.
\<close>

theorem configured_radius_gets_no_margin:
  "geofence_radius_meters example_session = Some 100
   \<and> spec_widened_radius 100 = 150
   \<and> (120::real) \<le> spec_widened_radius 100
   \<and> recheck_radius example_session = 100
   \<and> confirmPresence (\<lambda>a b. 120) example_env (example_prompted, example_store)
       = (Location_check_failed (Location_mismatch 120),
          example_prompted\<lparr>checkStatus := Prompt\<rparr>, example_store)
   \<and> recheck_radius (example_session\<lparr>geofence_radius_meters := None\<rparr>) = 150"
proof -
  have loc: "location_recheck (\<lambda>a b. 120) example_env example_session
               = Some (Location_mismatch 120)"
    by (simp add: location_recheck_def example_env_def example_session_def truthy_def
        recheck_radius_def or_default_def)
  have "confirmPresence (\<lambda>a b. 120) example_env (example_prompted, example_store)
       = (Location_check_failed (Location_mismatch 120),
          example_prompted\<lparr>checkStatus := Prompt\<rparr>, example_store)"
    using confirmPresence_ready [of example_prompted "\<lparr>ac_id = ''c1'', ac_expires_at = 60000\<rparr>"
        "''stu''" example_session "\<lambda>a b. 120" example_env example_store]
    by (simp add: example_prompted_eq loc)
  moreover have "geofence_radius_meters example_session = Some 100"
    "recheck_radius example_session = 100"
    "recheck_radius (example_session\<lparr>geofence_radius_meters := None\<rparr>) = 150"
    by (simp_all add: example_session_def recheck_radius_cases)
  moreover have "spec_widened_radius 100 = 150" "(120::real) \<le> spec_widened_radius 100"
    by (simp_all add: spec_widened_radius_def)
  ultimately show ?thesis by (intro conjI)
qed

subsection \<open>Inputs on which the code leaves its description\<close>

lemma equator_recheck_skipped:
  "location_recheck cd e equator_session = None"
  by (simp add: location_recheck_def equator_session_def truthy_def)

text \<open>
  Claim C2, on a failing input. The session requires a location, has a radius of 100
  metres and a classroom on the equator (latitude \<open>0\<close>). The guard of the location
  block tests the coordinates for truthiness, \<open>0\<close> is falsy, and the block is skipped:
  a student 150 metres away is verified, where the claim has the response rejected.
  With the classroom at latitude \<open>-1\<close> the same response is rejected with the
  distance.
\<close>

theorem equator_classroom_is_not_fenced:
  "location_required equator_session
   \<and> classroom_latitude equator_session = Some 0
   \<and> classroom_longitude equator_session = Some 37
   \<and> geofence_radius_meters equator_session = Some 100
   \<and> fst (confirmPresence (\<lambda>a b. 150) example_env
          (example_prompted\<lparr>lc_session := Some equator_session\<rparr>, example_store))
       = Presence_verified
   \<and> fst (confirmPresence (\<lambda>a b. 150) example_env (example_prompted, example_store))
       = Location_check_failed (Location_mismatch 150)"
proof -
  have sess: "location_required equator_session"
    "classroom_latitude equator_session = Some 0"
    "classroom_longitude equator_session = Some 37"
    "geofence_radius_meters equator_session = Some 100"
    by (simp_all add: equator_session_def example_session_def)
  have "confirmPresence (\<lambda>a b. 150) example_env
          (example_prompted\<lparr>lc_session := Some equator_session\<rparr>, example_store)
        = (Presence_verified,
           example_prompted\<lparr>lc_session := Some equator_session, checkStatus := Verified\<rparr>,
           example_store\<lparr>session_check_responses := session_check_responses example_store @
              [\<lparr>resp_id = response_id example_env, check_id = ''c1'', student_id = ''stu'',
                responded_at = response_time example_env\<rparr>]\<rparr>)"
    using confirmPresence_accepts [of "example_prompted\<lparr>lc_session := Some equator_session\<rparr>"
        "\<lparr>ac_id = ''c1'', ac_expires_at = 60000\<rparr>" "''stu''" equator_session
        "\<lambda>a b. 150" example_env example_store]
      equator_recheck_skipped [of "\<lambda>a b. 150" example_env]
    by (simp add: example_prompted_eq example_env_def example_store_def example_check_def)
  then have skipped: "fst (confirmPresence (\<lambda>a b. 150) example_env
          (example_prompted\<lparr>lc_session := Some equator_session\<rparr>, example_store))
       = Presence_verified"
    by simp
  have loc: "location_recheck (\<lambda>a b. 150) example_env example_session
               = Some (Location_mismatch 150)"
    by (simp add: location_recheck_def example_env_def example_session_def truthy_def
        recheck_radius_def or_default_def)
  have fenced: "fst (confirmPresence (\<lambda>a b. 150) example_env (example_prompted, example_store))
       = Location_check_failed (Location_mismatch 150)"
    using confirmPresence_ready [of example_prompted "\<lparr>ac_id = ''c1'', ac_expires_at = 60000\<rparr>"
        "''stu''" example_session "\<lambda>a b. 150" example_env example_store]
    by (simp add: example_prompted_eq loc)
  from sess skipped fenced show ?thesis by (intro conjI)
qed

lemma wall_clock_countdowns_ignore_the_counter:
  "lc_timeLeft (fst (check_countdown_tick now (c\<lparr>lc_timeLeft := k\<rparr>)))
     = (if checkStatus c = Prompt \<and> activeCheck c \<noteq> None
        then lc_timeLeft (fst (check_countdown_tick now c)) else k)"
  "timeLeft (fst (session_countdown_tick now (s\<lparr>timeLeft := k\<rparr>)))
     = (if session s \<noteq> None \<and> navigated_to s = None
        then timeLeft (fst (session_countdown_tick now s)) else k)"
  by (auto simp: check_countdown_tick_def session_countdown_tick_def Let_def
      split: option.splits)

lemma example_triggered:
  "triggerPresenceCheck example_trigger (example_lecturer, example_store)
     = (Check_started,
        example_lecturer\<lparr>activeCheckId := Some ''c2'', checkTimeLeft := 60, verifiedCount := 0\<rparr>,
        example_store\<lparr>session_checks := [example_check,
          \<lparr>chk_id = ''c2'', session_id = ''s1'', created_at = 100200, expires_at = 160000,
            chk_is_active = True, created_by = Some ''lec''\<rparr>]\<rparr>)"
  by (simp add: triggerPresenceCheck_def insert_check_def example_trigger_def
      example_lecturer_def example_store_def example_session_def example_check_def)

text \<open>
  Claim C5, on a failing input. The lecturer starts a check when the clock reads
  \<open>100000\<close>, so it expires at \<open>160000\<close>. The interval of the check timer fires at
  \<open>101000\<close> and, the tab having been suspended, next at \<open>131000\<close>. The page then
  shows 58 seconds, the stored counter less two; the wall clock leaves 29. The session
  clock and the student's check clock compute \<open>seconds_remaining\<close> at each firing;
  this clock does not.
\<close>

theorem lecturer_check_clock_counts_firings:
  "map expires_at (session_checks (snd (snd
       (triggerPresenceCheck example_trigger (example_lecturer, example_store))))) = [60000, 160000]
   \<and> checkTimeLeft (check_timer_run [101000, 131000]
         (fst (snd (triggerPresenceCheck example_trigger (example_lecturer, example_store))))) = 58
   \<and> seconds_remaining 160000 131000 = 29"
  by (simp add: example_triggered check_timer_tick_def seconds_remaining_def)
    (simp add: example_lecturer_def example_check_def)

text \<open>
  Claim C6, on a failing input. The session ends at \<open>3600000\<close> and the store does
  not answer the update. The clock calls \<open>endSession\<close> at the firing that reads
  \<open>3600000\<close> and again at each later firing, three calls in three firings, where the
  claim has exactly one: \<open>endSession\<close> never clears the \<open>is_active\<close> flag the
  firing tests, and only the navigation of a call that succeeded stops the interval.
\<close>

theorem session_end_signalled_at_every_firing:
  "fst (session_countdown_tick 3599000 example_lecturer) = example_lecturer\<lparr>timeLeft := 1\<rparr>
   \<and> \<not> snd (session_countdown_tick 3599000 example_lecturer)
   \<and> fst (session_clock_run example_policy (\<lambda>a. None) example_lecturer
         [(3599000, False), (3600000, False), (3601000, False), (3602000, False)]
         (example_lecturer, example_store)) = 3
   \<and> fst (session_clock_run example_policy (\<lambda>a. None) example_lecturer
         [(3599000, True), (3600000, True), (3601000, True), (3602000, True)]
         (example_lecturer, example_store)) = 1"
  by (simp add: session_countdown_tick_def endSession_def seconds_remaining_def
      example_lecturer_def example_session_def Let_def)

end
